theory Spec2Isabelle
  imports Complex_Main "HOL-Library.Word"
begin

section \<open>Values of the host language\<close>

subsection \<open>float64\<close>

text \<open>
  A Go \<^verbatim>\<open>float64\<close> is a NaN, an infinity or a finite number. The two zeros
  compare equal and are both \<open>Finite 0\<close>. Comparisons are exact on these values and
  are defined below as IEEE 754 has them (every comparison with a NaN is false).
  An arithmetic result that is finite in exact arithmetic is rounded to a float64;
  the rounding function is a parameter \<open>rnd\<close> of every operation that rounds, so
  that what is proved holds for the rounding of the machine, whatever it does.
\<close>

datatype f64 = NaN | NegInf | Finite real | PosInf

fun f64_lt :: "f64 \<Rightarrow> f64 \<Rightarrow> bool" where
  "f64_lt NaN _ = False"
| "f64_lt _ NaN = False"
| "f64_lt NegInf NegInf = False"
| "f64_lt NegInf _ = True"
| "f64_lt (Finite x) (Finite y) = (x < y)"
| "f64_lt (Finite x) PosInf = True"
| "f64_lt (Finite x) NegInf = False"
| "f64_lt PosInf _ = False"

fun f64_eq :: "f64 \<Rightarrow> f64 \<Rightarrow> bool" where
  "f64_eq NaN _ = False"
| "f64_eq _ NaN = False"
| "f64_eq a b = (a = b)"

definition f64_le :: "f64 \<Rightarrow> f64 \<Rightarrow> bool" where
  "f64_le a b = (f64_lt a b \<or> f64_eq a b)"

definition f64_gt :: "f64 \<Rightarrow> f64 \<Rightarrow> bool" where
  "f64_gt a b = f64_lt b a"

definition f64_ge :: "f64 \<Rightarrow> f64 \<Rightarrow> bool" where
  "f64_ge a b = f64_le b a"

text \<open>\<^verbatim>\<open>a != b\<close> is the negation of \<^verbatim>\<open>a == b\<close>: true when either side is a NaN.\<close>

definition f64_ne :: "f64 \<Rightarrow> f64 \<Rightarrow> bool" where
  "f64_ne a b = (\<not> f64_eq a b)"

fun fneg :: "f64 \<Rightarrow> f64" where
  "fneg NaN = NaN"
| "fneg NegInf = PosInf"
| "fneg PosInf = NegInf"
| "fneg (Finite x) = Finite (- x)"

fun fadd :: "(real \<Rightarrow> f64) \<Rightarrow> f64 \<Rightarrow> f64 \<Rightarrow> f64" where
  "fadd rnd NaN _ = NaN"
| "fadd rnd _ NaN = NaN"
| "fadd rnd PosInf NegInf = NaN"
| "fadd rnd NegInf PosInf = NaN"
| "fadd rnd PosInf _ = PosInf"
| "fadd rnd NegInf _ = NegInf"
| "fadd rnd (Finite x) PosInf = PosInf"
| "fadd rnd (Finite x) NegInf = NegInf"
| "fadd rnd (Finite x) (Finite y) = rnd (x + y)"

definition fsub :: "(real \<Rightarrow> f64) \<Rightarrow> f64 \<Rightarrow> f64 \<Rightarrow> f64" where
  "fsub rnd a b = fadd rnd a (fneg b)"

text \<open>The sign of a product or quotient with an infinite operand.\<close>

definition signed_inf :: "bool \<Rightarrow> f64" where
  "signed_inf negative = (if negative then NegInf else PosInf)"

fun is_negative :: "f64 \<Rightarrow> bool" where
  "is_negative NegInf = True"
| "is_negative (Finite x) = (x < 0)"
| "is_negative _ = False"

fun fmul :: "(real \<Rightarrow> f64) \<Rightarrow> f64 \<Rightarrow> f64 \<Rightarrow> f64" where
  "fmul rnd NaN _ = NaN"
| "fmul rnd _ NaN = NaN"
| "fmul rnd (Finite x) (Finite y) = rnd (x * y)"
| "fmul rnd (Finite x) b = (if x = 0 then NaN else signed_inf ((x < 0) \<noteq> is_negative b))"
| "fmul rnd a (Finite y) = (if y = 0 then NaN else signed_inf (is_negative a \<noteq> (y < 0)))"
| "fmul rnd a b = signed_inf (is_negative a \<noteq> is_negative b)"

text \<open>
  Division. A finite value divided by zero is an infinity whose sign also depends on
  the sign of the zero, which \<open>Finite 0\<close> does not record; the embedded code divides
  by a zero only when the divisor is \<^verbatim>\<open>float64(0)\<close>, a positive zero, and that is
  the case written here.
\<close>

fun fdiv :: "(real \<Rightarrow> f64) \<Rightarrow> f64 \<Rightarrow> f64 \<Rightarrow> f64" where
  "fdiv rnd NaN _ = NaN"
| "fdiv rnd _ NaN = NaN"
| "fdiv rnd (Finite x) (Finite y) =
     (if y = 0 then (if x = 0 then NaN else signed_inf (x < 0)) else rnd (x / y))"
| "fdiv rnd (Finite x) b = Finite 0"
| "fdiv rnd a (Finite y) = signed_inf (is_negative a \<noteq> (y < 0))"
| "fdiv rnd a b = NaN"

text \<open>\<^verbatim>\<open>math.Round\<close>: the nearest integer, halves away from zero; exact.\<close>

fun math_Round :: "f64 \<Rightarrow> f64" where
  "math_Round (Finite x) = Finite (sgn x * of_int \<lfloor>\<bar>x\<bar> + 1 / 2\<rfloor>)"
| "math_Round a = a"

subsection \<open>Dynamic values\<close>

text \<open>
  A value of type \<^verbatim>\<open>any\<close>: the nil interface, one arm for each numeric type the
  conversions switch on, strings, booleans, and \<open>AOther\<close> for a value of any other
  dynamic type, with the name of its type and a number that tells it from the other
  values of the type. A float32 is held as the float64 it widens to. \<^verbatim>\<open>int\<close> and \<^verbatim>\<open>uint\<close>
  are 64 bits wide.
\<close>

datatype any =
    ANil
  | AFloat64 f64
  | AFloat32 f64
  | AInt "64 word"
  | AInt64 "64 word"
  | AInt32 "32 word"
  | AInt16 "16 word"
  | AInt8 "8 word"
  | AUint "64 word"
  | AUint64 "64 word"
  | AUint32 "32 word"
  | AUint16 "16 word"
  | AUint8 "8 word"
  | AString string
  | ABool bool
  | AOther string nat

section \<open>Errors\<close>

datatype sentinel =
    ErrRuleNotFound | ErrLookupNotFound | ErrKeyNotFound | ErrValueNotFound
  | ErrBuildupNotFound | ErrInvalidRule | ErrInvalidExpression | ErrTypeMismatch
  | ErrDivisionByZero | ErrAllocationSum | ErrCircularDep | ErrEvaluation
  | ErrShortCircuit | ErrEngineClosed | ErrTimeout | ErrNilContext
  | ErrDuplicateRule | ErrDuplicateLookup

fun sentinel_text :: "sentinel \<Rightarrow> string" where
  "sentinel_text ErrRuleNotFound = ''cortex: rule not found''"
| "sentinel_text ErrLookupNotFound = ''cortex: lookup table not found''"
| "sentinel_text ErrKeyNotFound = ''cortex: key not found in lookup''"
| "sentinel_text ErrValueNotFound = ''cortex: value not found in context''"
| "sentinel_text ErrBuildupNotFound = ''cortex: buildup not found''"
| "sentinel_text ErrInvalidRule = ''cortex: invalid rule configuration''"
| "sentinel_text ErrInvalidExpression = ''cortex: invalid expression''"
| "sentinel_text ErrTypeMismatch = ''cortex: type mismatch''"
| "sentinel_text ErrDivisionByZero = ''cortex: division by zero''"
| "sentinel_text ErrAllocationSum = ''cortex: allocation percentages must sum to 100''"
| "sentinel_text ErrCircularDep = ''cortex: circular dependency detected''"
| "sentinel_text ErrEvaluation = ''cortex: evaluation failed''"
| "sentinel_text ErrShortCircuit = ''cortex: evaluation short-circuited''"
| "sentinel_text ErrEngineClosed = ''cortex: engine is closed''"
| "sentinel_text ErrTimeout = ''cortex: evaluation timeout''"
| "sentinel_text ErrNilContext = ''cortex: nil evaluation context''"
| "sentinel_text ErrDuplicateRule = ''cortex: duplicate rule ID''"
| "sentinel_text ErrDuplicateLookup = ''cortex: duplicate lookup table name''"

text \<open>
  An error value is one of the sentinels, an error made from a message alone
  (\<^verbatim>\<open>errors.New\<close>, \<^verbatim>\<open>fmt.Errorf\<close> without \<^verbatim>\<open>%w\<close>), an error that wraps
  another one and continues its message (\<^verbatim>\<open>fmt.Errorf("%w: ...", err, ...)\<close>),
  or a \<^verbatim>\<open>*RuleError\<close>. The cause held by a RuleError may be nil. Two errors
  are the same error when they are equal as values here; for the sentinels, which
  are what the package compares errors with, that is the identity of Go.
\<close>

datatype error =
    Sentinel sentinel
  | Message string
  | Wrapped error string
  | RuleErr RuleError
and RuleError =
    RuleError (RuleID: string) (RuleType: string) (Phase: string) (Err: "error option")

text \<open>
  \<^verbatim>\<open>%q\<close> of a string (\<^verbatim>\<open>strconv.Quote\<close>), on the bytes of the string: the
  double quote and the backslash are escaped, printable ASCII stands for itself, the
  control characters have their escapes. Bytes from 0x80 on are kept, which is what
  Go does with the UTF-8 encoding of a printable character.
\<close>

definition hex_digit :: "nat \<Rightarrow> char" where
  "hex_digit n = ''0123456789abcdef'' ! (n mod 16)"

definition quote_char :: "char \<Rightarrow> string" where
  "quote_char c =
     (let n = (of_char c :: nat) in
      if c = CHR 0x22 \<or> c = CHR 0x5C then [CHR 0x5C, c]
      else if 0x20 \<le> n \<and> n < 0x7F then [c]
      else if n = 7 then [CHR 0x5C, CHR ''a'']
      else if n = 8 then [CHR 0x5C, CHR ''b'']
      else if n = 12 then [CHR 0x5C, CHR ''f'']
      else if n = 10 then [CHR 0x5C, CHR ''n'']
      else if n = 13 then [CHR 0x5C, CHR ''r'']
      else if n = 9 then [CHR 0x5C, CHR ''t'']
      else if n = 11 then [CHR 0x5C, CHR ''v'']
      else if n < 0x20 \<or> n = 0x7F
        then [CHR 0x5C, CHR ''x'', hex_digit (n div 16), hex_digit n]
      else [c])"

definition go_quote :: "string \<Rightarrow> string" where
  "go_quote s = CHR 0x22 # concat (map quote_char s) @ [CHR 0x22]"

text \<open>
  The \<^verbatim>\<open>Error()\<close> method of each kind of error. \<^verbatim>\<open>%v\<close> of an error is its
  \<^verbatim>\<open>Error()\<close>, and \<^verbatim>\<open><nil>\<close> when there is none.
\<close>

fun error_Error :: "error \<Rightarrow> string"
  and RuleError_Error :: "RuleError \<Rightarrow> string"
  and fmt_v :: "error option \<Rightarrow> string" where
  "error_Error (Sentinel s) = sentinel_text s"
| "error_Error (Message m) = m"
| "error_Error (Wrapped e suffix) = error_Error e @ suffix"
| "error_Error (RuleErr re) = RuleError_Error re"
| "RuleError_Error (RuleError rid rtype phase cause) =
     (if rtype \<noteq> []
      then ''cortex: rule '' @ go_quote rid @ '' ('' @ rtype @ '') '' @ phase @ '': '' @ fmt_v cause
      else ''cortex: rule '' @ go_quote rid @ '' '' @ phase @ '': '' @ fmt_v cause)"
| "fmt_v None = ''<nil>''"
| "fmt_v (Some e) = error_Error e"

definition RuleError_Unwrap :: "RuleError \<Rightarrow> error option" where
  "RuleError_Unwrap e = Err e"

definition NewRuleError :: "string \<Rightarrow> string \<Rightarrow> string \<Rightarrow> error option \<Rightarrow> RuleError" where
  "NewRuleError ruleID ruleType phase err = RuleError ruleID ruleType phase err"

text \<open>\<^verbatim>\<open>errors.Unwrap\<close> and \<^verbatim>\<open>errors.Is\<close>: the chain of causes is walked until one
  of them is the target.\<close>

fun errors_Unwrap :: "error \<Rightarrow> error option" where
  "errors_Unwrap (Sentinel s) = None"
| "errors_Unwrap (Message m) = None"
| "errors_Unwrap (Wrapped e suffix) = Some e"
| "errors_Unwrap (RuleErr re) = RuleError_Unwrap re"

fun errors_Is :: "error \<Rightarrow> error \<Rightarrow> bool"
  and RuleError_Is :: "RuleError \<Rightarrow> error \<Rightarrow> bool"
  and cause_Is :: "error option \<Rightarrow> error \<Rightarrow> bool" where
  "errors_Is (Sentinel s) target = (Sentinel s = target)"
| "errors_Is (Message m) target = (Message m = target)"
| "errors_Is (Wrapped e suffix) target = (Wrapped e suffix = target \<or> errors_Is e target)"
| "errors_Is (RuleErr re) target = (RuleErr re = target \<or> RuleError_Is re target)"
| "RuleError_Is (RuleError rid rtype phase cause) target = cause_Is cause target"
| "cause_Is None target = False"
| "cause_Is (Some e) target = errors_Is e target"

section \<open>Numeric conversion of dynamic values\<close>

text \<open>\<^verbatim>\<open>%T\<close>: the name of the dynamic type of a value.\<close>

fun type_name :: "any \<Rightarrow> string" where
  "type_name ANil = ''<nil>''"
| "type_name (AFloat64 _) = ''float64''"
| "type_name (AFloat32 _) = ''float32''"
| "type_name (AInt _) = ''int''"
| "type_name (AInt64 _) = ''int64''"
| "type_name (AInt32 _) = ''int32''"
| "type_name (AInt16 _) = ''int16''"
| "type_name (AInt8 _) = ''int8''"
| "type_name (AUint _) = ''uint''"
| "type_name (AUint64 _) = ''uint64''"
| "type_name (AUint32 _) = ''uint32''"
| "type_name (AUint16 _) = ''uint16''"
| "type_name (AUint8 _) = ''uint8''"
| "type_name (AString _) = ''string''"
| "type_name (ABool _) = ''bool''"
| "type_name (AOther t _) = t"

text \<open>
  \<^verbatim>\<open>toFloat64\<close> of the cortex package. The conversion of a 64-bit integer rounds;
  integers of at most 32 bits and float32 values are float64 values already.
\<close>

fun toFloat64 :: "(real \<Rightarrow> f64) \<Rightarrow> any \<Rightarrow> error + f64" where
  "toFloat64 rnd (AFloat64 n) = Inr n"
| "toFloat64 rnd (AFloat32 n) = Inr n"
| "toFloat64 rnd (AInt n) = Inr (rnd (of_int (sint n)))"
| "toFloat64 rnd (AInt64 n) = Inr (rnd (of_int (sint n)))"
| "toFloat64 rnd (AInt32 n) = Inr (Finite (of_int (sint n)))"
| "toFloat64 rnd (AInt16 n) = Inr (Finite (of_int (sint n)))"
| "toFloat64 rnd (AInt8 n) = Inr (Finite (of_int (sint n)))"
| "toFloat64 rnd (AUint n) = Inr (rnd (of_nat (unat n)))"
| "toFloat64 rnd (AUint64 n) = Inr (rnd (of_nat (unat n)))"
| "toFloat64 rnd (AUint32 n) = Inr (Finite (of_nat (unat n)))"
| "toFloat64 rnd (AUint16 n) = Inr (Finite (of_nat (unat n)))"
| "toFloat64 rnd (AUint8 n) = Inr (Finite (of_nat (unat n)))"
| "toFloat64 rnd v =
     Inl (Wrapped (Sentinel ErrTypeMismatch) ('': expected numeric, got '' @ type_name v))"

section \<open>Buildup accumulators\<close>

datatype BuildupOperation =
  BuildupSum | BuildupMin | BuildupMax | BuildupAvg | BuildupCount | BuildupProduct

text \<open>The lock of a Buildup is left out; \<open>count\<close> is an int64 that one call
  increments by one.\<close>

record Buildup =
  Name :: string
  Operation :: BuildupOperation
  "value" :: f64
  count :: int

definition Buildup_Add :: "(real \<Rightarrow> f64) \<Rightarrow> Buildup \<Rightarrow> f64 \<Rightarrow> Buildup" where
  "Buildup_Add rnd b0 v =
     (let b = b0\<lparr>count := count b0 + 1\<rparr> in
      case Operation b of
        BuildupSum \<Rightarrow> b\<lparr>value := fadd rnd (value b) v\<rparr>
      | BuildupMin \<Rightarrow> if count b = 1 \<or> f64_lt v (value b) then b\<lparr>value := v\<rparr> else b
      | BuildupMax \<Rightarrow> if count b = 1 \<or> f64_gt v (value b) then b\<lparr>value := v\<rparr> else b
      | BuildupAvg \<Rightarrow> b\<lparr>value := fadd rnd (value b) v\<rparr>
      | BuildupCount \<Rightarrow> b\<lparr>value := rnd (of_int (count b))\<rparr>
      | BuildupProduct \<Rightarrow>
          if count b = 1 then b\<lparr>value := v\<rparr> else b\<lparr>value := fmul rnd (value b) v\<rparr>)"

definition Buildup_Current :: "(real \<Rightarrow> f64) \<Rightarrow> Buildup \<Rightarrow> f64" where
  "Buildup_Current rnd b =
     (if Operation b = BuildupAvg \<and> count b > 0
      then fdiv rnd (value b) (rnd (of_int (count b)))
      else value b)"

definition Buildup_Count :: "Buildup \<Rightarrow> int" where
  "Buildup_Count b = count b"

definition Buildup_Reset :: "Buildup \<Rightarrow> f64 \<Rightarrow> Buildup" where
  "Buildup_Reset b initial = b\<lparr>value := initial, count := 0\<rparr>"

section \<open>Lookup tables\<close>

text \<open>The \<^verbatim>\<open>Lookup\<close> interface: a name and a \<^verbatim>\<open>Get\<close> method.\<close>

record Lookup =
  lookup_Name :: string
  lookup_Get :: "any \<Rightarrow> any \<times> bool"

section \<open>The evaluation context\<close>

text \<open>
  The fields of \<^verbatim>\<open>EvalContext\<close>. The mutex and the start time are left out: the
  embedding is of one thread of calls, and nothing proved below reads the clock.
  A method that mutates the context returns the new context. The two atomic
  counters are integers.
\<close>

record EvalContext =
  ID :: string
  "values" :: "string \<rightharpoonup> any"
  buildups :: "string \<rightharpoonup> Buildup"
  lookups :: "string \<rightharpoonup> Lookup"
  metadata :: "string \<rightharpoonup> string"
  halted :: bool
  haltedBy :: string
  rulesEvaluated :: int
  errCount :: int

text \<open>\<^verbatim>\<open>generateID\<close> reads the clock and a global counter; the id is an argument.\<close>

definition NewEvalContext :: "string \<Rightarrow> EvalContext" where
  "NewEvalContext newID =
     \<lparr>ID = newID, values = Map.empty, buildups = Map.empty, lookups = Map.empty,
      metadata = Map.empty, halted = False, haltedBy = [], rulesEvaluated = 0, errCount = 0\<rparr>"

definition EvalContext_Get :: "EvalContext \<Rightarrow> string \<Rightarrow> any \<times> bool" where
  "EvalContext_Get e key = (case values e key of Some v \<Rightarrow> (v, True) | None \<Rightarrow> (ANil, False))"

definition EvalContext_Set :: "EvalContext \<Rightarrow> string \<Rightarrow> any \<Rightarrow> EvalContext" where
  "EvalContext_Set e key v = e\<lparr>values := (values e)(key \<mapsto> v)\<rparr>"

definition EvalContext_Delete :: "EvalContext \<Rightarrow> string \<Rightarrow> EvalContext" where
  "EvalContext_Delete e key = e\<lparr>values := (values e)(key := None)\<rparr>"

definition EvalContext_Has :: "EvalContext \<Rightarrow> string \<Rightarrow> bool" where
  "EvalContext_Has e key = (values e key \<noteq> None)"

definition EvalContext_GetFloat64 ::
  "(real \<Rightarrow> f64) \<Rightarrow> EvalContext \<Rightarrow> string \<Rightarrow> error + f64" where
  "EvalContext_GetFloat64 rnd e key =
     (case EvalContext_Get e key of
        (v, False) \<Rightarrow> Inl (Wrapped (Sentinel ErrValueNotFound) ('': '' @ key))
      | (v, True) \<Rightarrow> toFloat64 rnd v)"

definition EvalContext_RegisterLookup :: "EvalContext \<Rightarrow> Lookup \<Rightarrow> EvalContext" where
  "EvalContext_RegisterLookup e lookup = e\<lparr>lookups := (lookups e)(lookup_Name lookup \<mapsto> lookup)\<rparr>"

definition EvalContext_Lookup :: "EvalContext \<Rightarrow> string \<Rightarrow> any \<Rightarrow> error + any \<times> bool" where
  "EvalContext_Lookup e tableName key =
     (case lookups e tableName of
        None \<Rightarrow> Inl (Wrapped (Sentinel ErrLookupNotFound) ('': '' @ tableName))
      | Some lookup \<Rightarrow> Inr (lookup_Get lookup key))"

definition EvalContext_GetBuildup :: "EvalContext \<Rightarrow> string \<Rightarrow> Buildup option" where
  "EvalContext_GetBuildup e key = buildups e key"

text \<open>
  \<^verbatim>\<open>GetOrCreateBuildup\<close> returns a pointer to the accumulator that the context
  holds under the name; here it returns that accumulator and the context.
\<close>

definition EvalContext_GetOrCreateBuildup ::
  "EvalContext \<Rightarrow> string \<Rightarrow> BuildupOperation \<Rightarrow> f64 \<Rightarrow> Buildup \<times> EvalContext" where
  "EvalContext_GetOrCreateBuildup e key op initial =
     (case buildups e key of
        Some b \<Rightarrow> (b, e)
      | None \<Rightarrow>
          (let b = \<lparr>Name = key, Operation = op, value = initial, count = 0\<rparr>
           in (b, e\<lparr>buildups := (buildups e)(key \<mapsto> b)\<rparr>)))"

definition EvalContext_SetMetadata :: "EvalContext \<Rightarrow> string \<Rightarrow> string \<Rightarrow> EvalContext" where
  "EvalContext_SetMetadata e key v = e\<lparr>metadata := (metadata e)(key \<mapsto> v)\<rparr>"

definition EvalContext_GetMetadata :: "EvalContext \<Rightarrow> string \<Rightarrow> string option" where
  "EvalContext_GetMetadata e key = metadata e key"

definition EvalContext_Halt :: "EvalContext \<Rightarrow> string \<Rightarrow> EvalContext" where
  "EvalContext_Halt e ruleID = e\<lparr>halted := True, haltedBy := ruleID\<rparr>"

definition EvalContext_IsHalted :: "EvalContext \<Rightarrow> bool" where
  "EvalContext_IsHalted e = halted e"

definition EvalContext_HaltedBy :: "EvalContext \<Rightarrow> string" where
  "EvalContext_HaltedBy e = haltedBy e"

definition incRulesEvaluated :: "EvalContext \<Rightarrow> EvalContext" where
  "incRulesEvaluated e = e\<lparr>rulesEvaluated := rulesEvaluated e + 1\<rparr>"

definition incErrors :: "EvalContext \<Rightarrow> EvalContext" where
  "incErrors e = e\<lparr>errCount := errCount e + 1\<rparr>"

definition EvalContext_RulesEvaluated :: "EvalContext \<Rightarrow> int" where
  "EvalContext_RulesEvaluated e = rulesEvaluated e"

definition EvalContext_ErrorCount :: "EvalContext \<Rightarrow> int" where
  "EvalContext_ErrorCount e = errCount e"

text \<open>
  Every call that changes a context, as a value, and the context after a call. A
  Buildup is changed through the pointer that \<^verbatim>\<open>GetOrCreateBuildup\<close> or
  \<^verbatim>\<open>GetBuildup\<close> returned; \<open>OpBuildupAdd\<close> and \<open>OpBuildupReset\<close> name the
  accumulator by its key, and do nothing when there is none.
\<close>

datatype ctx_op =
    OpSet string any
  | OpDelete string
  | OpRegisterLookup Lookup
  | OpGetOrCreateBuildup string BuildupOperation f64
  | OpBuildupAdd string f64
  | OpBuildupReset string f64
  | OpSetMetadata string string
  | OpHalt string
  | OpIncRulesEvaluated
  | OpIncErrors

fun apply_op :: "(real \<Rightarrow> f64) \<Rightarrow> EvalContext \<Rightarrow> ctx_op \<Rightarrow> EvalContext" where
  "apply_op rnd e (OpSet key v) = EvalContext_Set e key v"
| "apply_op rnd e (OpDelete key) = EvalContext_Delete e key"
| "apply_op rnd e (OpRegisterLookup lookup) = EvalContext_RegisterLookup e lookup"
| "apply_op rnd e (OpGetOrCreateBuildup key op initial) =
     snd (EvalContext_GetOrCreateBuildup e key op initial)"
| "apply_op rnd e (OpBuildupAdd key v) =
     (case buildups e key of
        None \<Rightarrow> e
      | Some b \<Rightarrow> e\<lparr>buildups := (buildups e)(key \<mapsto> Buildup_Add rnd b v)\<rparr>)"
| "apply_op rnd e (OpBuildupReset key initial) =
     (case buildups e key of
        None \<Rightarrow> e
      | Some b \<Rightarrow> e\<lparr>buildups := (buildups e)(key \<mapsto> Buildup_Reset b initial)\<rparr>)"
| "apply_op rnd e (OpSetMetadata key v) = EvalContext_SetMetadata e key v"
| "apply_op rnd e (OpHalt ruleID) = EvalContext_Halt e ruleID"
| "apply_op rnd e OpIncRulesEvaluated = incRulesEvaluated e"
| "apply_op rnd e OpIncErrors = incErrors e"

text \<open>The rule ids of the Halt calls among a sequence of calls, in order.\<close>

fun halt_ids :: "ctx_op list \<Rightarrow> string list" where
  "halt_ids [] = []"
| "halt_ids (OpHalt ruleID # ops) = ruleID # halt_ids ops"
| "halt_ids (_ # ops) = halt_ids ops"

section \<open>Range lookup\<close>

text \<open>
  \<^verbatim>\<open>RangeEntry[V]\<close> and \<^verbatim>\<open>RangeLookup[V]\<close>. \<^verbatim>\<open>Get\<close> returns an \<^verbatim>\<open>any\<close> and
  a flag: the value of an entry, or nil, which is \<open>None\<close> here.
\<close>

record 'v RangeEntry =
  entry_Min :: f64
  entry_Max :: f64
  entry_Value :: 'v

record 'v RangeLookup =
  range_name :: string
  ranges :: "'v RangeEntry list"

definition NewRangeLookup :: "string \<Rightarrow> 'v RangeEntry list \<Rightarrow> 'v RangeLookup" where
  "NewRangeLookup name rs = \<lparr>range_name = name, ranges = rs\<rparr>"

definition RangeLookup_Name :: "'v RangeLookup \<Rightarrow> string" where
  "RangeLookup_Name l = range_name l"

text \<open>The loop of \<^verbatim>\<open>Get\<close> over the entries, for the converted key \<open>k\<close>.\<close>

fun scan_ranges :: "f64 \<Rightarrow> 'v RangeEntry list \<Rightarrow> 'v option \<times> bool" where
  "scan_ranges k [] = (None, False)"
| "scan_ranges k (r # rs) =
     (if f64_ge k (entry_Min r) \<and> f64_lt k (entry_Max r)
      then (Some (entry_Value r), True)
      else scan_ranges k rs)"

definition RangeLookup_Get ::
  "(real \<Rightarrow> f64) \<Rightarrow> 'v RangeLookup \<Rightarrow> any \<Rightarrow> 'v option \<times> bool" where
  "RangeLookup_Get rnd l key =
     (case toFloat64 rnd key of
        Inl err \<Rightarrow> (None, False)
      | Inr k \<Rightarrow> scan_ranges k (ranges l))"

text \<open>\<^verbatim>\<open>TaxBracket\<close> and \<^verbatim>\<open>NewTaxBracketLookup\<close>: a maximum of zero stands for no
  upper bound.\<close>

record TaxBracket =
  bracket_Min :: f64
  bracket_Max :: f64
  bracket_Rate :: f64

definition NewTaxBracketLookup :: "string \<Rightarrow> TaxBracket list \<Rightarrow> f64 RangeLookup" where
  "NewTaxBracketLookup name brackets =
     NewRangeLookup name
       (map (\<lambda>b. \<lparr>entry_Min = bracket_Min b,
                  entry_Max = (if f64_eq (bracket_Max b) (Finite 0) then PosInf else bracket_Max b),
                  entry_Value = bracket_Rate b\<rparr>) brackets)"

section \<open>Expressions\<close>

datatype TokenType =
    TokenEOF | TokenError
  | TokenNumber | TokenString | TokenIdent | TokenBool
  | TokenPlus | TokenMinus | TokenStar | TokenSlash | TokenPercent
  | TokenEq | TokenNe | TokenLt | TokenLe | TokenGt | TokenGe
  | TokenAnd | TokenOr | TokenNot
  | TokenLParen | TokenRParen | TokenComma

fun TokenType_String :: "TokenType \<Rightarrow> string" where
  "TokenType_String TokenEOF = ''EOF''"
| "TokenType_String TokenError = ''ERROR''"
| "TokenType_String TokenNumber = ''NUMBER''"
| "TokenType_String TokenString = ''STRING''"
| "TokenType_String TokenIdent = ''IDENT''"
| "TokenType_String TokenBool = ''BOOL''"
| "TokenType_String TokenPlus = ''+''"
| "TokenType_String TokenMinus = ''-''"
| "TokenType_String TokenStar = ''*''"
| "TokenType_String TokenSlash = ''/''"
| "TokenType_String TokenPercent = ''%''"
| "TokenType_String TokenEq = ''==''"
| "TokenType_String TokenNe = ''!=''"
| "TokenType_String TokenLt = ''<''"
| "TokenType_String TokenLe = ''<=''"
| "TokenType_String TokenGt = ''>''"
| "TokenType_String TokenGe = ''>=''"
| "TokenType_String TokenAnd = ''&&''"
| "TokenType_String TokenOr = ''||''"
| "TokenType_String TokenNot = ''!''"
| "TokenType_String TokenLParen = ''(''"
| "TokenType_String TokenRParen = '')''"
| "TokenType_String TokenComma = '',''"

text \<open>The nodes of the syntax tree.\<close>

datatype Node =
    NumberLit f64
  | StringLit string
  | BoolLit bool
  | Ident string
  | BinaryExpr TokenType Node Node
  | UnaryExpr TokenType Node
  | CallExpr string "Node list"

text \<open>\<^verbatim>\<open>toFloat\<close> of the expr package converts fewer types than \<^verbatim>\<open>toFloat64\<close>.\<close>

fun toFloat :: "(real \<Rightarrow> f64) \<Rightarrow> any \<Rightarrow> error + f64" where
  "toFloat rnd (AFloat64 n) = Inr n"
| "toFloat rnd (AFloat32 n) = Inr n"
| "toFloat rnd (AInt n) = Inr (rnd (of_int (sint n)))"
| "toFloat rnd (AInt64 n) = Inr (rnd (of_int (sint n)))"
| "toFloat rnd (AInt32 n) = Inr (Finite (of_int (sint n)))"
| "toFloat rnd v = Inl (Message (''expected number, got '' @ type_name v))"

text \<open>
  \<^verbatim>\<open>equals\<close>: two numbers are compared as float64 values; any other two values
  with \<^verbatim>\<open>==\<close> on \<^verbatim>\<open>any\<close>, which holds of two values of the same dynamic type
  that are equal.
\<close>

definition equals :: "(real \<Rightarrow> f64) \<Rightarrow> any \<Rightarrow> any \<Rightarrow> bool" where
  "equals rnd a b =
     (case (toFloat rnd a, toFloat rnd b) of
        (Inr af, Inr bf) \<Rightarrow> f64_eq af bf
      | _ \<Rightarrow> a = b)"

text \<open>\<^verbatim>\<open>math.Mod\<close>: the remainder of the division truncated towards zero; exact.\<close>

fun math_Mod :: "f64 \<Rightarrow> f64 \<Rightarrow> f64" where
  "math_Mod NaN _ = NaN"
| "math_Mod _ NaN = NaN"
| "math_Mod (Finite x) (Finite y) =
     (if y = 0 then NaN else Finite (x - y * (sgn (x / y) * of_int \<lfloor>\<bar>x / y\<bar>\<rfloor>)))"
| "math_Mod (Finite x) b = Finite x"
| "math_Mod a b = NaN"

definition evalUnary :: "(real \<Rightarrow> f64) \<Rightarrow> TokenType \<Rightarrow> any \<Rightarrow> error + any" where
  "evalUnary rnd op val =
     (case op of
        TokenNot \<Rightarrow>
          (case val of
             ABool b \<Rightarrow> Inr (ABool (\<not> b))
           | _ \<Rightarrow> Inl (Message (''expected bool for !, got '' @ type_name val)))
      | TokenMinus \<Rightarrow>
          (case toFloat rnd val of
             Inl err \<Rightarrow> Inl err
           | Inr f \<Rightarrow> Inr (AFloat64 (fneg f)))
      | _ \<Rightarrow> Inl (Message (''unknown unary operator: '' @ TokenType_String op)))"

text \<open>The two operands of an arithmetic or ordering operator, converted in turn.\<close>

definition both_floats :: "(real \<Rightarrow> f64) \<Rightarrow> any \<Rightarrow> any \<Rightarrow> error + f64 \<times> f64" where
  "both_floats rnd left right =
     (case toFloat rnd left of
        Inl err \<Rightarrow> Inl err
      | Inr lf \<Rightarrow>
          (case toFloat rnd right of
             Inl err \<Rightarrow> Inl err
           | Inr rf \<Rightarrow> Inr (lf, rf)))"

definition both_bools :: "any \<Rightarrow> any \<Rightarrow> (bool \<times> bool) option" where
  "both_bools left right =
     (case (left, right) of (ABool l, ABool r) \<Rightarrow> Some (l, r) | _ \<Rightarrow> None)"

definition evalBinary :: "(real \<Rightarrow> f64) \<Rightarrow> TokenType \<Rightarrow> any \<Rightarrow> any \<Rightarrow> error + any" where
  "evalBinary rnd op left right =
     (case op of
        TokenAnd \<Rightarrow>
          (case both_bools left right of
             None \<Rightarrow> Inl (Message ''expected bool for &&'')
           | Some (l, r) \<Rightarrow> Inr (ABool (l \<and> r)))
      | TokenOr \<Rightarrow>
          (case both_bools left right of
             None \<Rightarrow> Inl (Message ''expected bool for ||'')
           | Some (l, r) \<Rightarrow> Inr (ABool (l \<or> r)))
      | TokenEq \<Rightarrow> Inr (ABool (equals rnd left right))
      | TokenNe \<Rightarrow> Inr (ABool (\<not> equals rnd left right))
      | TokenLt \<Rightarrow> map_sum id (\<lambda>(lf, rf). ABool (f64_lt lf rf)) (both_floats rnd left right)
      | TokenLe \<Rightarrow> map_sum id (\<lambda>(lf, rf). ABool (f64_le lf rf)) (both_floats rnd left right)
      | TokenGt \<Rightarrow> map_sum id (\<lambda>(lf, rf). ABool (f64_gt lf rf)) (both_floats rnd left right)
      | TokenGe \<Rightarrow> map_sum id (\<lambda>(lf, rf). ABool (f64_ge lf rf)) (both_floats rnd left right)
      | TokenPlus \<Rightarrow>
          (case (left, right) of
             (AString ls, AString rs) \<Rightarrow> Inr (AString (ls @ rs))
           | _ \<Rightarrow> map_sum id (\<lambda>(lf, rf). AFloat64 (fadd rnd lf rf)) (both_floats rnd left right))
      | TokenMinus \<Rightarrow>
          map_sum id (\<lambda>(lf, rf). AFloat64 (fsub rnd lf rf)) (both_floats rnd left right)
      | TokenStar \<Rightarrow>
          map_sum id (\<lambda>(lf, rf). AFloat64 (fmul rnd lf rf)) (both_floats rnd left right)
      | TokenSlash \<Rightarrow>
          (case both_floats rnd left right of
             Inl err \<Rightarrow> Inl err
           | Inr (lf, rf) \<Rightarrow>
               if f64_eq rf (Finite 0) then Inl (Message ''division by zero'')
               else Inr (AFloat64 (fdiv rnd lf rf)))
      | TokenPercent \<Rightarrow>
          (case both_floats rnd left right of
             Inl err \<Rightarrow> Inl err
           | Inr (lf, rf) \<Rightarrow>
               if f64_eq rf (Finite 0) then Inl (Message ''modulo by zero'')
               else Inr (AFloat64 (math_Mod lf rf)))
      | _ \<Rightarrow> Inl (Message (''unknown binary operator: '' @ TokenType_String op)))"

text \<open>
  The evaluator holds the functions that an expression may call, by name. A
  \<^verbatim>\<open>ValueGetter\<close> is its \<^verbatim>\<open>Get\<close> method. The \<^verbatim>\<open>context.Context\<close> argument is
  not used by the evaluation and is left out.
\<close>

type_synonym Func = "any list \<Rightarrow> error + any"

type_synonym ValueGetter = "string \<Rightarrow> any \<times> bool"

record Evaluator =
  funcs :: "string \<rightharpoonup> Func"

definition Evaluator_RegisterFunc :: "Evaluator \<Rightarrow> string \<Rightarrow> Func \<Rightarrow> Evaluator" where
  "Evaluator_RegisterFunc e name fn = e\<lparr>funcs := (funcs e)(name \<mapsto> fn)\<rparr>"

fun eval :: "(real \<Rightarrow> f64) \<Rightarrow> Evaluator \<Rightarrow> Node \<Rightarrow> ValueGetter \<Rightarrow> error + any"
  and eval_args :: "(real \<Rightarrow> f64) \<Rightarrow> Evaluator \<Rightarrow> Node list \<Rightarrow> ValueGetter \<Rightarrow> error + any list"
  where
  "eval rnd e (NumberLit v) getter = Inr (AFloat64 v)"
| "eval rnd e (StringLit v) getter = Inr (AString v)"
| "eval rnd e (BoolLit v) getter = Inr (ABool v)"
| "eval rnd e (Ident name) getter =
     (case getter name of
        (val, False) \<Rightarrow> Inl (Message (''undefined variable: '' @ name))
      | (val, True) \<Rightarrow> Inr val)"
| "eval rnd e (UnaryExpr op x) getter =
     (case eval rnd e x getter of
        Inl err \<Rightarrow> Inl err
      | Inr val \<Rightarrow> evalUnary rnd op val)"
| "eval rnd e (BinaryExpr op l r) getter =
     (case eval rnd e l getter of
        Inl err \<Rightarrow> Inl err
      | Inr left \<Rightarrow>
          (case eval rnd e r getter of
             Inl err \<Rightarrow> Inl err
           | Inr right \<Rightarrow> evalBinary rnd op left right))"
| "eval rnd e (CallExpr name args) getter =
     (case funcs e name of
        None \<Rightarrow> Inl (Message (''undefined function: '' @ name))
      | Some fn \<Rightarrow>
          (case eval_args rnd e args getter of
             Inl err \<Rightarrow> Inl err
           | Inr vals \<Rightarrow> fn vals))"
| "eval_args rnd e [] getter = Inr []"
| "eval_args rnd e (arg # args) getter =
     (case eval rnd e arg getter of
        Inl err \<Rightarrow> Inl err
      | Inr val \<Rightarrow>
          (case eval_args rnd e args getter of
             Inl err \<Rightarrow> Inl err
           | Inr vals \<Rightarrow> Inr (val # vals)))"

definition Evaluator_Eval ::
  "(real \<Rightarrow> f64) \<Rightarrow> Evaluator \<Rightarrow> Node \<Rightarrow> ValueGetter \<Rightarrow> error + any" where
  "Evaluator_Eval rnd e node getter = eval rnd e node getter"

text \<open>A compiled expression: its text, its tree and its evaluator.\<close>

record Expression =
  raw :: string
  ast :: Node
  evaluator :: Evaluator

definition Expression_Eval :: "(real \<Rightarrow> f64) \<Rightarrow> Expression \<Rightarrow> ValueGetter \<Rightarrow> error + any" where
  "Expression_Eval rnd e getter = Evaluator_Eval rnd (evaluator e) (ast e) getter"

definition Expression_EvalFloat64 ::
  "(real \<Rightarrow> f64) \<Rightarrow> Expression \<Rightarrow> ValueGetter \<Rightarrow> error + f64" where
  "Expression_EvalFloat64 rnd e getter =
     (case Expression_Eval rnd e getter of
        Inl err \<Rightarrow> Inl err
      | Inr result \<Rightarrow> toFloat rnd result)"

text \<open>\<^verbatim>\<open>EvalBool\<close> returns a bool and an error, which is nil (\<open>None\<close>) or not.\<close>

definition Expression_EvalBool ::
  "(real \<Rightarrow> f64) \<Rightarrow> Expression \<Rightarrow> ValueGetter \<Rightarrow> bool \<times> error option" where
  "Expression_EvalBool rnd e getter =
     (case Expression_Eval rnd e getter of
        Inl err \<Rightarrow> (False, Some err)
      | Inr result \<Rightarrow>
          (case result of
             ABool b \<Rightarrow> (b, None)
           | _ \<Rightarrow> (False, None)))"

definition Expression_RegisterFunc :: "Expression \<Rightarrow> string \<Rightarrow> Func \<Rightarrow> Expression" where
  "Expression_RegisterFunc e name fn =
     e\<lparr>evaluator := Evaluator_RegisterFunc (evaluator e) name fn\<rparr>"

section \<open>Rules\<close>

text \<open>
  The \<^verbatim>\<open>Rule\<close> interface: an id, and \<^verbatim>\<open>Evaluate\<close>, which works on the context it
  is given and returns an error or nil. The \<^verbatim>\<open>context.Context\<close> argument carries
  the deadline only and is left out.
\<close>

record Rule =
  rule_ID :: string
  rule_Evaluate :: "EvalContext \<Rightarrow> error option \<times> EvalContext"

record baseRule =
  base_id :: string
  base_name :: string
  base_description :: string
  base_deps :: "string list"

subsection \<open>Assignment\<close>

text \<open>A \<^verbatim>\<open>ValueFunc\<close> is given the context and returns a value or an error.\<close>

type_synonym ValueFunc = "EvalContext \<Rightarrow> (error + any) \<times> EvalContext"

record AssignmentRule = baseRule +
  assignment_target :: string
  assignment_value :: any
  assignment_valueFunc :: "ValueFunc option"

record AssignmentConfig =
  acfg_ID :: string
  acfg_Name :: string
  acfg_Description :: string
  acfg_Deps :: "string list"
  acfg_Target :: string
  acfg_Value :: any
  acfg_ValueFunc :: "ValueFunc option"

definition NewAssignment :: "AssignmentConfig \<Rightarrow> error + AssignmentRule" where
  "NewAssignment cfg =
     (if acfg_ID cfg = [] then
        Inl (Wrapped (Sentinel ErrInvalidRule) '': assignment rule requires ID'')
      else if acfg_Target cfg = [] then
        Inl (Wrapped (Sentinel ErrInvalidRule)
               ('': assignment rule '' @ go_quote (acfg_ID cfg) @ '' requires target''))
      else if acfg_Value cfg = ANil \<and> acfg_ValueFunc cfg = None then
        Inl (Wrapped (Sentinel ErrInvalidRule)
               ('': assignment rule '' @ go_quote (acfg_ID cfg)
                  @ '' requires value or value function''))
      else
        Inr \<lparr>base_id = acfg_ID cfg, base_name = acfg_Name cfg,
             base_description = acfg_Description cfg, base_deps = acfg_Deps cfg,
             assignment_target = acfg_Target cfg, assignment_value = acfg_Value cfg,
             assignment_valueFunc = acfg_ValueFunc cfg\<rparr>)"

definition AssignmentRule_Evaluate ::
  "AssignmentRule \<Rightarrow> EvalContext \<Rightarrow> error option \<times> EvalContext" where
  "AssignmentRule_Evaluate r evalCtx =
     (case assignment_valueFunc r of
        Some f \<Rightarrow>
          (case f evalCtx of
             (Inl err, evalCtx') \<Rightarrow>
               (Some (RuleErr (NewRuleError (base_id r) ''assignment'' ''evaluate'' (Some err))),
                evalCtx')
           | (Inr v, evalCtx') \<Rightarrow> (None, EvalContext_Set evalCtx' (assignment_target r) v))
      | None \<Rightarrow> (None, EvalContext_Set evalCtx (assignment_target r) (assignment_value r)))"

definition AssignmentRule_Rule :: "AssignmentRule \<Rightarrow> Rule" where
  "AssignmentRule_Rule r = \<lparr>rule_ID = base_id r, rule_Evaluate = AssignmentRule_Evaluate r\<rparr>"

subsection \<open>Formula\<close>

type_synonym FormulaFunc = "EvalContext \<Rightarrow> (error + any) \<times> EvalContext"

record FormulaRule = baseRule +
  formula_target :: string
  formula_inputs :: "string list"
  formula :: "FormulaFunc option"
  expression :: string
  compiledExpr :: "Expression option"

definition FormulaRule_Evaluate ::
  "(real \<Rightarrow> f64) \<Rightarrow> FormulaRule \<Rightarrow> EvalContext \<Rightarrow> error option \<times> EvalContext" where
  "FormulaRule_Evaluate rnd r evalCtx =
     (case formula r of
        Some f \<Rightarrow>
          (case f evalCtx of
             (Inl err, evalCtx') \<Rightarrow>
               (Some (RuleErr (NewRuleError (base_id r) ''formula'' ''evaluate'' (Some err))),
                evalCtx')
           | (Inr result, evalCtx') \<Rightarrow>
               (None, EvalContext_Set evalCtx' (formula_target r) result))
      | None \<Rightarrow>
          (case compiledExpr r of
             Some e \<Rightarrow>
               (case Expression_Eval rnd e (EvalContext_Get evalCtx) of
                  Inl err \<Rightarrow>
                    (Some (RuleErr (NewRuleError (base_id r) ''formula'' ''evaluate'' (Some err))),
                     evalCtx)
                | Inr result \<Rightarrow> (None, EvalContext_Set evalCtx (formula_target r) result))
           | None \<Rightarrow>
               (Some (RuleErr (NewRuleError (base_id r) ''formula'' ''evaluate''
                        (Some (Message ''no formula or expression configured'')))),
                evalCtx)))"

definition FormulaRule_Rule :: "(real \<Rightarrow> f64) \<Rightarrow> FormulaRule \<Rightarrow> Rule" where
  "FormulaRule_Rule rnd r = \<lparr>rule_ID = base_id r, rule_Evaluate = FormulaRule_Evaluate rnd r\<rparr>"

subsection \<open>Buildup\<close>

record BuildupRule = baseRule +
  buildup :: string
  operation :: BuildupOperation
  buildup_source :: string
  initial :: f64
  buildup_target :: string

record BuildupConfig =
  bcfg_ID :: string
  bcfg_Name :: string
  bcfg_Description :: string
  bcfg_Deps :: "string list"
  bcfg_Buildup :: string
  bcfg_Operation :: BuildupOperation
  bcfg_Source :: string
  bcfg_Initial :: f64
  bcfg_Target :: string

definition NewBuildup :: "BuildupConfig \<Rightarrow> error + BuildupRule" where
  "NewBuildup cfg =
     (if bcfg_ID cfg = [] then
        Inl (Wrapped (Sentinel ErrInvalidRule) '': buildup rule requires ID'')
      else if bcfg_Buildup cfg = [] then
        Inl (Wrapped (Sentinel ErrInvalidRule)
               ('': buildup rule '' @ go_quote (bcfg_ID cfg) @ '' requires buildup name''))
      else if bcfg_Source cfg = [] \<and> bcfg_Operation cfg \<noteq> BuildupCount then
        Inl (Wrapped (Sentinel ErrInvalidRule)
               ('': buildup rule '' @ go_quote (bcfg_ID cfg)
                  @ '' requires source (except for count)''))
      else
        (let initial0 = bcfg_Initial cfg;
             initial1 =
               (if f64_eq initial0 (Finite 0) then
                  (case bcfg_Operation cfg of
                     BuildupMin \<Rightarrow> PosInf
                   | BuildupMax \<Rightarrow> NegInf
                   | BuildupProduct \<Rightarrow> Finite 1
                   | _ \<Rightarrow> initial0)
                else initial0)
         in Inr \<lparr>base_id = bcfg_ID cfg, base_name = bcfg_Name cfg,
                 base_description = bcfg_Description cfg, base_deps = bcfg_Deps cfg,
                 buildup = bcfg_Buildup cfg, operation = bcfg_Operation cfg,
                 buildup_source = bcfg_Source cfg, initial = initial1,
                 buildup_target = bcfg_Target cfg\<rparr>))"

text \<open>
  \<^verbatim>\<open>Add\<close> works through the pointer that \<^verbatim>\<open>GetOrCreateBuildup\<close> returned, on the
  accumulator that the context holds: the context gets the accumulator after the
  addition under the same name.
\<close>

definition BuildupRule_Evaluate ::
  "(real \<Rightarrow> f64) \<Rightarrow> BuildupRule \<Rightarrow> EvalContext \<Rightarrow> error option \<times> EvalContext" where
  "BuildupRule_Evaluate rnd r evalCtx =
     (case (if operation r = BuildupCount then Inr (Finite 1)
            else EvalContext_GetFloat64 rnd evalCtx (buildup_source r)) of
        Inl err \<Rightarrow>
          (Some (RuleErr (NewRuleError (base_id r) ''buildup'' ''evaluate'' (Some err))), evalCtx)
      | Inr v \<Rightarrow>
          (let (b, c1) = EvalContext_GetOrCreateBuildup evalCtx (buildup r) (operation r) (initial r);
               b' = Buildup_Add rnd b v;
               c2 = c1\<lparr>buildups := (buildups c1)(buildup r \<mapsto> b')\<rparr>
           in if buildup_target r \<noteq> []
              then (None, EvalContext_Set c2 (buildup_target r) (AFloat64 (Buildup_Current rnd b')))
              else (None, c2)))"

definition BuildupRule_Rule :: "(real \<Rightarrow> f64) \<Rightarrow> BuildupRule \<Rightarrow> Rule" where
  "BuildupRule_Rule rnd r = \<lparr>rule_ID = base_id r, rule_Evaluate = BuildupRule_Evaluate rnd r\<rparr>"

subsection \<open>Allocation\<close>

datatype AllocationStrategy =
  StrategyPercentage | StrategyFixed | StrategyWeighted | StrategyEqual | StrategyRatio

record AllocationTarget =
  Key :: string
  Amount :: f64

record AllocationRule = baseRule +
  allocation_source :: string
  strategy :: AllocationStrategy
  targets :: "AllocationTarget list"
  remainder :: string
  precision :: int


text \<open>The sum of the amounts of the targets, added up from zero in their order.\<close>

definition sum_amounts :: "(real \<Rightarrow> f64) \<Rightarrow> AllocationTarget list \<Rightarrow> f64" where
  "sum_amounts rnd ts = foldl (\<lambda>acc t. fadd rnd acc (Amount t)) (Finite 0) ts"




text \<open>
  \<^verbatim>\<open>round\<close>: the value times \<^verbatim>\<open>math.Pow(10, precision)\<close>, rounded to an integer,
  divided by the same power. \<^verbatim>\<open>math.Pow\<close> is an argument, \<open>pow\<close>.
\<close>

definition AllocationRule_round ::
  "(real \<Rightarrow> f64) \<Rightarrow> (f64 \<Rightarrow> f64 \<Rightarrow> f64) \<Rightarrow> AllocationRule \<Rightarrow> f64 \<Rightarrow> f64" where
  "AllocationRule_round rnd pow r v =
     (let multiplier = pow (Finite 10) (rnd (of_int (precision r)))
      in fdiv rnd (math_Round (fmul rnd v multiplier)) multiplier)"

text \<open>
  The loop that all strategies of \<^verbatim>\<open>calculate\<close> share: each target in turn gets its
  share, which is added to the running total. The shares are \<^verbatim>\<open>allocations[i]\<close>
  for the targets passed so far.
\<close>

fun allocate_loop ::
  "(real \<Rightarrow> f64) \<Rightarrow> (AllocationTarget \<Rightarrow> f64) \<Rightarrow> AllocationTarget list \<Rightarrow> f64 list \<Rightarrow> f64
     \<Rightarrow> f64 list \<times> f64" where
  "allocate_loop rnd share [] allocations tot = (allocations, tot)"
| "allocate_loop rnd share (t # ts) allocations tot =
     (let a = share t
      in allocate_loop rnd share ts (allocations @ [a]) (fadd rnd tot a))"

definition calculate ::
  "(real \<Rightarrow> f64) \<Rightarrow> (f64 \<Rightarrow> f64 \<Rightarrow> f64) \<Rightarrow> AllocationRule \<Rightarrow> f64 \<Rightarrow> f64 list \<times> f64" where
  "calculate rnd pow r source =
     (let n = length (targets r);
          zeros = replicate n (Finite 0);
          finish = (\<lambda>(allocations, tot). (allocations, fsub rnd source tot))
      in case strategy r of
           StrategyPercentage \<Rightarrow>
             finish (allocate_loop rnd
               (\<lambda>t. AllocationRule_round rnd pow r
                      (fdiv rnd (fmul rnd source (Amount t)) (Finite 100)))
               (targets r) [] (Finite 0))
         | StrategyFixed \<Rightarrow>
             finish (allocate_loop rnd (\<lambda>t. AllocationRule_round rnd pow r (Amount t))
               (targets r) [] (Finite 0))
         | StrategyWeighted \<Rightarrow>
             (let totalWeight = sum_amounts rnd (targets r) in
              if f64_eq totalWeight (Finite 0) then (zeros, source)
              else finish (allocate_loop rnd
                (\<lambda>t. AllocationRule_round rnd pow r
                       (fdiv rnd (fmul rnd source (Amount t)) totalWeight))
                (targets r) [] (Finite 0)))
         | StrategyEqual \<Rightarrow>
             (let each = AllocationRule_round rnd pow r (fdiv rnd source (rnd (of_nat n)))
              in finish (allocate_loop rnd (\<lambda>t. each) (targets r) [] (Finite 0)))
         | StrategyRatio \<Rightarrow>
             (let totalRatio = sum_amounts rnd (targets r) in
              if f64_eq totalRatio (Finite 0) then (zeros, source)
              else finish (allocate_loop rnd
                (\<lambda>t. AllocationRule_round rnd pow r
                       (fdiv rnd (fmul rnd source (Amount t)) totalRatio))
                (targets r) [] (Finite 0))))"

text \<open>The loop of \<^verbatim>\<open>Evaluate\<close> that writes \<^verbatim>\<open>allocations[i]\<close> under the key of
  the i-th target.\<close>

fun set_targets :: "EvalContext \<Rightarrow> AllocationTarget list \<Rightarrow> f64 list \<Rightarrow> EvalContext" where
  "set_targets evalCtx (t # ts) (a # as) =
     set_targets (EvalContext_Set evalCtx (Key t) (AFloat64 a)) ts as"
| "set_targets evalCtx _ _ = evalCtx"

definition AllocationRule_Evaluate ::
  "(real \<Rightarrow> f64) \<Rightarrow> (f64 \<Rightarrow> f64 \<Rightarrow> f64) \<Rightarrow> AllocationRule \<Rightarrow> EvalContext
     \<Rightarrow> error option \<times> EvalContext" where
  "AllocationRule_Evaluate rnd pow r evalCtx =
     (case EvalContext_GetFloat64 rnd evalCtx (allocation_source r) of
        Inl err \<Rightarrow>
          (Some (RuleErr (NewRuleError (base_id r) ''allocation'' ''evaluate'' (Some err))),
           evalCtx)
      | Inr source \<Rightarrow>
          (let (allocations, rmd) = calculate rnd pow r source;
               c1 = set_targets evalCtx (targets r) allocations
           in if remainder r \<noteq> [] \<and> f64_ne rmd (Finite 0)
              then (None, EvalContext_Set c1 (remainder r) (AFloat64 rmd))
              else (None, c1)))"

definition AllocationRule_Rule ::
  "(real \<Rightarrow> f64) \<Rightarrow> (f64 \<Rightarrow> f64 \<Rightarrow> f64) \<Rightarrow> AllocationRule \<Rightarrow> Rule" where
  "AllocationRule_Rule rnd pow r =
     \<lparr>rule_ID = base_id r, rule_Evaluate = AllocationRule_Evaluate rnd pow r\<rparr>"

section \<open>The engine\<close>

datatype EvalMode = ModeFailFast | ModeCollectAll | ModeContinueOnError

text \<open>\<open>Timeout\<close> is a duration in nanoseconds.\<close>

record Config =
  Mode :: EvalMode
  Timeout :: int
  ShortCircuit :: bool
  EnableMetrics :: bool
  MaxRules :: int

definition DefaultConfig :: Config where
  "DefaultConfig =
     \<lparr>Mode = ModeFailFast, Timeout = 0, ShortCircuit = True, EnableMetrics = True, MaxRules = 0\<rparr>"

definition Config_Validate :: "Config \<Rightarrow> error option" where
  "Config_Validate c =
     (if Timeout c < 0 then Some (Sentinel ErrInvalidRule)
      else if MaxRules c < 0 then Some (Sentinel ErrInvalidRule)
      else None)"

text \<open>
  The result of an evaluation. \<^verbatim>\<open>Duration\<close> reads the clock and is left out;
  \<open>Context\<close> is the context as the evaluation left it.
\<close>

record Result =
  result_ID :: string
  Success :: bool
  RulesEvaluated :: int
  RulesFailed :: int
  Errors :: "RuleError list"
  HaltedBy :: string
  Context :: EvalContext

definition newResult :: "EvalContext \<Rightarrow> RuleError list \<Rightarrow> Result" where
  "newResult evalCtx errors =
     \<lparr>result_ID = ID evalCtx,
      Success = (length errors = 0 \<and> \<not> EvalContext_IsHalted evalCtx),
      RulesEvaluated = EvalContext_RulesEvaluated evalCtx,
      RulesFailed = int (length errors),
      Errors = errors,
      HaltedBy = EvalContext_HaltedBy evalCtx,
      Context = evalCtx\<rparr>"

text \<open>
  The engine: its lookups are held in the order of registration, under distinct
  names. The observability hooks receive what happens and do not act on the
  evaluation; they are left out, and so is the lock.
\<close>

record Engine =
  engine_name :: string
  config :: Config
  engine_closed :: bool
  rules :: "Rule list"
  ruleIDs :: "string set"
  engine_lookups :: "Lookup list"

definition New :: "string \<Rightarrow> Config option \<Rightarrow> Engine" where
  "New name cfg =
     \<lparr>engine_name = name,
      config = (case cfg of None \<Rightarrow> DefaultConfig | Some c \<Rightarrow> c),
      engine_closed = False, rules = [], ruleIDs = {}, engine_lookups = []\<rparr>"

text \<open>\<^verbatim>\<open>%d\<close> of an integer: its decimal digits, after a minus sign when it is
  negative.\<close>

function nat_digits :: "nat \<Rightarrow> string" where
  "nat_digits n =
     (if n < 10 then [''0123456789'' ! n]
      else nat_digits (n div 10) @ [''0123456789'' ! (n mod 10)])"
  by pat_completeness auto
termination
  by (relation "measure id") auto

declare nat_digits.simps [simp del]

definition fmt_d :: "int \<Rightarrow> string" where
  "fmt_d i = (if i < 0 then CHR ''-'' # nat_digits (nat (- i)) else nat_digits (nat i))"

definition Engine_AddRule :: "Engine \<Rightarrow> Rule \<Rightarrow> error option \<times> Engine" where
  "Engine_AddRule e rule =
     (if engine_closed e then (Some (Sentinel ErrEngineClosed), e)
      else if rule_ID rule \<in> ruleIDs e then
        (Some (Wrapped (Sentinel ErrDuplicateRule) ('': '' @ rule_ID rule)), e)
      else if MaxRules (config e) > 0 \<and> int (length (rules e)) \<ge> MaxRules (config e) then
        (Some (Wrapped (Sentinel ErrInvalidRule)
                 ('': max rules limit reached ('' @ fmt_d (MaxRules (config e)) @ '')'')), e)
      else (None, e\<lparr>rules := rules e @ [rule], ruleIDs := insert (rule_ID rule) (ruleIDs e)\<rparr>))"

fun Engine_AddRules :: "Engine \<Rightarrow> Rule list \<Rightarrow> error option \<times> Engine" where
  "Engine_AddRules e [] = (None, e)"
| "Engine_AddRules e (rule # rest) =
     (case Engine_AddRule e rule of
        (Some err, e') \<Rightarrow> (Some err, e')
      | (None, e') \<Rightarrow> Engine_AddRules e' rest)"

definition Engine_RegisterLookup :: "Engine \<Rightarrow> Lookup \<Rightarrow> error option \<times> Engine" where
  "Engine_RegisterLookup e lookup =
     (if engine_closed e then (Some (Sentinel ErrEngineClosed), e)
      else if lookup_Name lookup \<in> lookup_Name ` set (engine_lookups e) then
        (Some (Wrapped (Sentinel ErrDuplicateLookup) ('': '' @ lookup_Name lookup)), e)
      else (None, e\<lparr>engine_lookups := engine_lookups e @ [lookup]\<rparr>))"

definition Engine_Close :: "Engine \<Rightarrow> Engine" where
  "Engine_Close e = e\<lparr>engine_closed := True\<rparr>"

definition evaluateRule :: "Rule \<Rightarrow> EvalContext \<Rightarrow> error option \<times> EvalContext" where
  "evaluateRule rule evalCtx = rule_Evaluate rule evalCtx"

text \<open>
  The RuleError that the loop records for a rule that has returned \<open>err\<close>: the
  error itself when it is a \<^verbatim>\<open>*RuleError\<close>, and otherwise a new one around it,
  with the id of the rule and no family.
\<close>

definition recorded_error :: "Rule \<Rightarrow> error \<Rightarrow> RuleError" where
  "recorded_error rule err =
     (case err of
        RuleErr re \<Rightarrow> re
      | _ \<Rightarrow> NewRuleError (rule_ID rule) [] ''evaluate'' (Some err))"

text \<open>
  The loop of \<^verbatim>\<open>Evaluate\<close> over the rules ends in one of three ways: the deadline
  has passed or the caller has cancelled, a rule has failed under fail-fast, or the
  loop has run to its end or to a halt.
\<close>

datatype loop_end =
    TimedOut string
  | FailedFast EvalContext "RuleError list" error
  | Completed EvalContext "RuleError list"

text \<open>
  Whether the \<^verbatim>\<open>context.Context\<close> is done when the loop looks at it depends on the
  clock and on the caller. It is an argument: \<open>cancelled k\<close> is the text of
  \<^verbatim>\<open>ctx.Err()\<close> when the context is done at the check before the rule at
  position \<open>k\<close>, and \<open>None\<close> when it is not.
\<close>

fun evaluate_loop ::
  "Config \<Rightarrow> (nat \<Rightarrow> string option) \<Rightarrow> nat \<Rightarrow> Rule list \<Rightarrow> EvalContext \<Rightarrow> RuleError list
     \<Rightarrow> loop_end" where
  "evaluate_loop cfg cancelled k [] evalCtx errors = Completed evalCtx errors"
| "evaluate_loop cfg cancelled k (rule # rest) evalCtx errors =
     (case cancelled k of
        Some cause \<Rightarrow> TimedOut cause
      | None \<Rightarrow>
          if ShortCircuit cfg \<and> EvalContext_IsHalted evalCtx then Completed evalCtx errors
          else
            (case evaluateRule rule evalCtx of
               (Some err, c1) \<Rightarrow>
                 (let c2 = incErrors c1;
                      ruleErr = recorded_error rule err;
                      errors' = errors @ [ruleErr]
                  in case Mode cfg of
                       ModeFailFast \<Rightarrow> FailedFast c2 errors' err
                     | ModeCollectAll \<Rightarrow> evaluate_loop cfg cancelled (Suc k) rest c2 errors'
                     | ModeContinueOnError \<Rightarrow> evaluate_loop cfg cancelled (Suc k) rest c2 errors')
             | (None, c1) \<Rightarrow>
                 evaluate_loop cfg cancelled (Suc k) rest (incRulesEvaluated c1) errors))"

text \<open>\<^verbatim>\<open>Evaluate\<close>: the context argument may be nil, which is \<open>None\<close>.\<close>

definition Engine_Evaluate ::
  "(nat \<Rightarrow> string option) \<Rightarrow> Engine \<Rightarrow> EvalContext option \<Rightarrow> Result option \<times> error option" where
  "Engine_Evaluate cancelled e evalCtx =
     (if engine_closed e then (None, Some (Sentinel ErrEngineClosed))
      else case evalCtx of
        None \<Rightarrow> (None, Some (Sentinel ErrNilContext))
      | Some c0 \<Rightarrow>
          (let c1 = foldl EvalContext_RegisterLookup c0 (engine_lookups e)
           in case evaluate_loop (config e) cancelled 0 (rules e) c1 [] of
                TimedOut cause \<Rightarrow> (None, Some (Wrapped (Sentinel ErrTimeout) ('': '' @ cause)))
              | FailedFast c errors err \<Rightarrow> (Some (newResult c errors), Some err)
              | Completed c errors \<Rightarrow> (Some (newResult c errors), None)))"

section \<open>Plain identifiers\<close>



section \<open>The sum of a list of float64 values\<close>


section \<open>Scenarios\<close>

text \<open>The tax brackets of the payroll scenario.\<close>

definition tax_brackets :: "real RangeLookup" where
  "tax_brackets = NewRangeLookup ''tax_brackets''
     [\<lparr>entry_Min = Finite 0, entry_Max = Finite 50000, entry_Value = 0.10\<rparr>,
      \<lparr>entry_Min = Finite 50000, entry_Max = Finite 100000, entry_Value = 0.22\<rparr>,
      \<lparr>entry_Min = Finite 100000, entry_Max = PosInf, entry_Value = 0.35\<rparr>]"

text \<open>A value function that returns the integer 1.\<close>

definition one_func :: ValueFunc where
  "one_func evalCtx = (Inr (AInt 1), evalCtx)"

text \<open>A configuration that supplies both the static value and the value function.\<close>

definition both_config :: AssignmentConfig where
  "both_config =
     \<lparr>acfg_ID = ''id'', acfg_Name = [], acfg_Description = [], acfg_Deps = [],
      acfg_Target = ''x'', acfg_Value = AInt 1, acfg_ValueFunc = Some one_func\<rparr>"

text \<open>A buildup rule for a minimum, with the initial value left at zero.\<close>

definition min_config :: BuildupConfig where
  "min_config =
     \<lparr>bcfg_ID = ''lowest'', bcfg_Name = [], bcfg_Description = [], bcfg_Deps = [],
      bcfg_Buildup = ''low'', bcfg_Operation = BuildupMin, bcfg_Source = ''value'',
      bcfg_Initial = Finite 0, bcfg_Target = []\<rparr>"

text \<open>The expression \<^verbatim>\<open>"a" + "b"\<close>, the expression \<^verbatim>\<open>x\<close>, and an evaluator
  with no functions.\<close>

definition no_funcs :: Evaluator where
  "no_funcs = \<lparr>funcs = Map.empty\<rparr>"

definition concat_expr :: Expression where
  "concat_expr =
     \<lparr>raw = ''\"a\" + \"b\"'',
      ast = BinaryExpr TokenPlus (StringLit ''a'') (StringLit ''b''), evaluator = no_funcs\<rparr>"

definition ident_expr :: Expression where
  "ident_expr = \<lparr>raw = ''x'', ast = Ident ''x'', evaluator = no_funcs\<rparr>"

definition no_values :: ValueGetter where
  "no_values key = (ANil, False)"

text \<open>
  The rules of the fail-fast and collect-all scenarios: formulas whose function
  returns an error, an assignment of 42 to \<^verbatim>\<open>y\<close> and one to \<^verbatim>\<open>z\<close>, and a rule
  that halts the evaluation.
\<close>

definition failing_func :: FormulaFunc where
  "failing_func evalCtx = (Inl (Message ''boom''), evalCtx)"

definition failing_formula :: "string \<Rightarrow> string \<Rightarrow> FormulaRule" where
  "failing_formula rid target =
     \<lparr>base_id = rid, base_name = [], base_description = [], base_deps = [],
      formula_target = target, formula_inputs = [], formula = Some failing_func,
      expression = [], compiledExpr = None\<rparr>"

definition assign_42 :: "string \<Rightarrow> AssignmentRule" where
  "assign_42 target =
     \<lparr>base_id = ''set-'' @ target, base_name = [], base_description = [], base_deps = [],
      assignment_target = target, assignment_value = AInt 42, assignment_valueFunc = None\<rparr>"


definition never_done :: "nat \<Rightarrow> string option" where
  "never_done k = None"

definition fail_fast_engine :: Engine where
  "fail_fast_engine =
     snd (Engine_AddRules (New ''test'' None)
            [FormulaRule_Rule Finite (failing_formula ''fail'' ''x''),
             AssignmentRule_Rule (assign_42 ''y'')])"

definition collect_all_engine :: Engine where
  "collect_all_engine =
     snd (Engine_AddRules (New ''test'' (Some (DefaultConfig\<lparr>Mode := ModeCollectAll\<rparr>)))
            [FormulaRule_Rule Finite (failing_formula ''fail1'' ''x''),
             FormulaRule_Rule Finite (failing_formula ''fail2'' ''y''),
             AssignmentRule_Rule (assign_42 ''z'')])"







section \<open>The halt flag\<close>

lemma halted_apply_op: "halted e \<Longrightarrow> halted (apply_op rnd e op)"
  by (cases op)
     (auto simp: EvalContext_Set_def EvalContext_Delete_def EvalContext_RegisterLookup_def
        EvalContext_GetOrCreateBuildup_def EvalContext_SetMetadata_def EvalContext_Halt_def
        incRulesEvaluated_def incErrors_def Let_def split: option.splits)

lemma haltedBy_apply_op:
  "haltedBy (apply_op rnd e op) = (case op of OpHalt ruleID \<Rightarrow> ruleID | _ \<Rightarrow> haltedBy e)"
  by (cases op)
     (auto simp: EvalContext_Set_def EvalContext_Delete_def EvalContext_RegisterLookup_def
        EvalContext_GetOrCreateBuildup_def EvalContext_SetMetadata_def EvalContext_Halt_def
        incRulesEvaluated_def incErrors_def Let_def split: option.splits)

lemma halted_foldl: "halted e \<Longrightarrow> halted (foldl (apply_op rnd) e ops)"
  by (induction ops arbitrary: e) (auto simp: halted_apply_op)

lemma haltedBy_foldl:
  "haltedBy (foldl (apply_op rnd) e ops) = last (haltedBy e # halt_ids ops)"
proof (induction ops arbitrary: e)
  case Nil
  then show ?case by simp
next
  case (Cons op ops)
  show ?case
    by (cases op) (simp_all add: Cons.IH haltedBy_apply_op del: apply_op.simps)
qed

text \<open>
  C1, as the code has it: after \<^verbatim>\<open>Halt\<close>, \<^verbatim>\<open>IsHalted\<close> is true whatever calls
  follow on the context, and \<^verbatim>\<open>HaltedBy\<close> is the rule id of the most recent
  \<^verbatim>\<open>Halt\<close>: a later \<^verbatim>\<open>Halt\<close> overwrites it (the last halter wins).
\<close>

theorem Halt_persists_last_halter_wins:
  "EvalContext_IsHalted (foldl (apply_op rnd) (EvalContext_Halt e ruleID) ops) \<and>
   EvalContext_HaltedBy (foldl (apply_op rnd) (EvalContext_Halt e ruleID) ops)
     = last (ruleID # halt_ids ops)"
  by (simp add: EvalContext_IsHalted_def EvalContext_HaltedBy_def halted_foldl haltedBy_foldl
        EvalContext_Halt_def)

text \<open>
  C1 as stated (the first halter wins) fails: after \<^verbatim>\<open>Halt("rule-a")\<close> and then
  \<^verbatim>\<open>Halt("rule-b")\<close> on a new context, \<^verbatim>\<open>HaltedBy\<close> is \<^verbatim>\<open>"rule-b"\<close>.
\<close>

theorem Halt_first_halter_counterexample:
  "EvalContext_HaltedBy
     (EvalContext_Halt (EvalContext_Halt (NewEvalContext ''eval-1'') ''rule-a'') ''rule-b'')
   = ''rule-b'' \<and> ''rule-b'' \<noteq> ''rule-a''"
  by (simp add: EvalContext_HaltedBy_def EvalContext_Halt_def)

section \<open>Range lookup\<close>

lemma scan_ranges_first:
  "i < length rs \<Longrightarrow> f64_le (entry_Min (rs ! i)) k \<and> f64_lt k (entry_Max (rs ! i)) \<Longrightarrow>
   \<forall>j<i. \<not> (f64_le (entry_Min (rs ! j)) k \<and> f64_lt k (entry_Max (rs ! j))) \<Longrightarrow>
   scan_ranges k rs = (Some (entry_Value (rs ! i)), True)"
proof (induction rs arbitrary: i)
  case Nil
  then show ?case by simp
next
  case (Cons r rs)
  show ?case
  proof (cases i)
    case 0
    with Cons.prems show ?thesis by (simp add: f64_ge_def)
  next
    case (Suc n)
    from Cons.prems(3) Suc have "\<not> (f64_le (entry_Min r) k \<and> f64_lt k (entry_Max r))"
      by force
    moreover have "scan_ranges k rs = (Some (entry_Value (rs ! n)), True)"
    proof (rule Cons.IH)
      show "n < length rs" using Cons.prems(1) Suc by simp
      show "f64_le (entry_Min (rs ! n)) k \<and> f64_lt k (entry_Max (rs ! n))"
        using Cons.prems(2) Suc by simp
      show "\<forall>j<n. \<not> (f64_le (entry_Min (rs ! j)) k \<and> f64_lt k (entry_Max (rs ! j)))"
        using Cons.prems(3) Suc by force
    qed
    ultimately show ?thesis using Suc by (auto simp: f64_ge_def)
  qed
qed

lemma scan_ranges_none:
  "\<forall>i<length rs. \<not> (f64_le (entry_Min (rs ! i)) k \<and> f64_lt k (entry_Max (rs ! i))) \<Longrightarrow>
   scan_ranges k rs = (None, False)"
proof (induction rs)
  case Nil
  then show ?case by simp
next
  case (Cons r rs)
  from Cons.prems have "\<not> (f64_le (entry_Min r) k \<and> f64_lt k (entry_Max r))" by force
  moreover from Cons.prems have
    "\<forall>i<length rs. \<not> (f64_le (entry_Min (rs ! i)) k \<and> f64_lt k (entry_Max (rs ! i)))" by force
  ultimately show ?case using Cons.IH by (auto simp: f64_ge_def)
qed

lemma f64_lt_irrefl: "\<not> f64_lt k k"
  by (cases k) simp_all

text \<open>
  C2: when the key converts to the float64 \<open>k\<close>, \<^verbatim>\<open>Get\<close> returns the value of the
  first entry, in the order of declaration, with \<open>min \<le> k < max\<close>, and true; it
  returns nil and false when no entry has \<open>min \<le> k < max\<close>, and when the key does
  not convert. An entry whose maximum is \<open>k\<close> itself does not have \<open>min \<le> k < max\<close>,
  so a key on a boundary falls to a later entry.
\<close>

theorem RangeLookup_Get_first_match:
  "(toFloat64 rnd key = Inr k \<longrightarrow>
      (\<forall>i<length (ranges l).
          f64_le (entry_Min (ranges l ! i)) k \<and> f64_lt k (entry_Max (ranges l ! i)) \<and>
          (\<forall>j<i. \<not> (f64_le (entry_Min (ranges l ! j)) k \<and> f64_lt k (entry_Max (ranges l ! j))))
          \<longrightarrow> RangeLookup_Get rnd l key = (Some (entry_Value (ranges l ! i)), True)) \<and>
      ((\<forall>i<length (ranges l).
          \<not> (f64_le (entry_Min (ranges l ! i)) k \<and> f64_lt k (entry_Max (ranges l ! i))))
          \<longrightarrow> RangeLookup_Get rnd l key = (None, False)) \<and>
      (\<forall>i<length (ranges l). entry_Max (ranges l ! i) = k \<longrightarrow>
          \<not> (f64_le (entry_Min (ranges l ! i)) k \<and> f64_lt k (entry_Max (ranges l ! i))))) \<and>
   (isl (toFloat64 rnd key) \<longrightarrow> RangeLookup_Get rnd l key = (None, False))"
proof (intro conjI impI allI)
  fix i
  assume "toFloat64 rnd key = Inr k" and "i < length (ranges l)"
    and "f64_le (entry_Min (ranges l ! i)) k \<and> f64_lt k (entry_Max (ranges l ! i)) \<and>
          (\<forall>j<i. \<not> (f64_le (entry_Min (ranges l ! j)) k \<and> f64_lt k (entry_Max (ranges l ! j))))"
  then show "RangeLookup_Get rnd l key = (Some (entry_Value (ranges l ! i)), True)"
    by (simp add: RangeLookup_Get_def scan_ranges_first)
next
  assume "toFloat64 rnd key = Inr k"
    and "\<forall>i<length (ranges l).
          \<not> (f64_le (entry_Min (ranges l ! i)) k \<and> f64_lt k (entry_Max (ranges l ! i)))"
  then show "RangeLookup_Get rnd l key = (None, False)"
    by (simp add: RangeLookup_Get_def scan_ranges_none)
next
  fix i
  assume "entry_Max (ranges l ! i) = k"
  then show "\<not> (f64_le (entry_Min (ranges l ! i)) k \<and> f64_lt k (entry_Max (ranges l ! i)))"
    by (simp add: f64_lt_irrefl)
next
  assume "isl (toFloat64 rnd key)"
  then show "RangeLookup_Get rnd l key = (None, False)"
    by (auto simp: RangeLookup_Get_def isl_def)
qed

text \<open>
  The brackets \<open>[0, 50000)\<close>, \<open>[50000, 100000)\<close>, \<open>[100000, +\<infinity>)\<close>: the key 50000 gets
  the value of the second entry, the key -1 and a string key get nil and false.
\<close>

theorem RangeLookup_Get_first_match_witness:
  "toFloat64 Finite (AFloat64 (Finite 50000)) = Inr (Finite 50000) \<and>
   RangeLookup_Get Finite tax_brackets (AFloat64 (Finite 50000)) = (Some 0.22, True) \<and>
   RangeLookup_Get Finite tax_brackets (AFloat64 (Finite (-1))) = (None, False) \<and>
   isl (toFloat64 Finite (AString ''x'')) \<and>
   RangeLookup_Get Finite tax_brackets (AString ''x'') = (None, False)"
  using RangeLookup_Get_first_match [of Finite "AFloat64 (Finite 50000)" "Finite 50000" tax_brackets]
    RangeLookup_Get_first_match [of Finite "AFloat64 (Finite (-1))" "Finite (-1)" tax_brackets]
    RangeLookup_Get_first_match [of Finite "AString ''x''" "Finite 0" tax_brackets]
  by (simp add: tax_brackets_def NewRangeLookup_def RangeLookup_Get_def f64_le_def f64_ge_def)

section \<open>Buildup initial values\<close>

text \<open>
  C6: a buildup rule built from a configuration whose \<^verbatim>\<open>Initial\<close> is zero starts
  from plus infinity for a minimum, minus infinity for a maximum, 1 for a product
  and 0 for the other operations. \<^verbatim>\<open>GetOrCreateBuildup\<close> creates the accumulator
  with the initial value it is given, unchanged; it returns the accumulator that
  the context holds when there is one under the name, and a call after the first,
  whatever operation and initial value it passes, returns what the first returned
  and leaves the context as it is.
\<close>

theorem NewBuildup_defaults_GetOrCreateBuildup_keeps:
  "(NewBuildup cfg = Inr r \<and> f64_eq (bcfg_Initial cfg) (Finite 0) \<longrightarrow>
      initial r = (case bcfg_Operation cfg of
                     BuildupMin \<Rightarrow> PosInf
                   | BuildupMax \<Rightarrow> NegInf
                   | BuildupProduct \<Rightarrow> Finite 1
                   | _ \<Rightarrow> Finite 0)) \<and>
   (buildups e key = None \<longrightarrow>
      EvalContext_GetOrCreateBuildup e key op init =
        (\<lparr>Name = key, Operation = op, value = init, count = 0\<rparr>,
         e\<lparr>buildups := (buildups e)(key \<mapsto> \<lparr>Name = key, Operation = op, value = init, count = 0\<rparr>)\<rparr>)) \<and>
   (buildups e key = Some b \<longrightarrow> EvalContext_GetOrCreateBuildup e key op init = (b, e)) \<and>
   EvalContext_GetOrCreateBuildup (snd (EvalContext_GetOrCreateBuildup e key op init)) key op' init'
     = EvalContext_GetOrCreateBuildup e key op init"
proof (intro conjI impI)
  assume a: "NewBuildup cfg = Inr r \<and> f64_eq (bcfg_Initial cfg) (Finite 0)"
  then have z: "bcfg_Initial cfg = Finite 0"
    by (cases "bcfg_Initial cfg") simp_all
  from a show "initial r = (case bcfg_Operation cfg of
                     BuildupMin \<Rightarrow> PosInf
                   | BuildupMax \<Rightarrow> NegInf
                   | BuildupProduct \<Rightarrow> Finite 1
                   | _ \<Rightarrow> Finite 0)"
    by (cases "bcfg_Operation cfg")
       (auto simp: NewBuildup_def Let_def z split: if_splits)
next
  assume "buildups e key = None"
  then show "EvalContext_GetOrCreateBuildup e key op init =
        (\<lparr>Name = key, Operation = op, value = init, count = 0\<rparr>,
         e\<lparr>buildups := (buildups e)(key \<mapsto> \<lparr>Name = key, Operation = op, value = init, count = 0\<rparr>)\<rparr>)"
    by (simp add: EvalContext_GetOrCreateBuildup_def Let_def)
next
  assume "buildups e key = Some b"
  then show "EvalContext_GetOrCreateBuildup e key op init = (b, e)"
    by (simp add: EvalContext_GetOrCreateBuildup_def)
next
  show "EvalContext_GetOrCreateBuildup (snd (EvalContext_GetOrCreateBuildup e key op init)) key op' init'
     = EvalContext_GetOrCreateBuildup e key op init"
    by (cases "buildups e key") (simp_all add: EvalContext_GetOrCreateBuildup_def Let_def)
qed

text \<open>
  A minimum with \<^verbatim>\<open>Initial\<close> zero starts from plus infinity as a rule, and from
  zero when \<^verbatim>\<open>GetOrCreateBuildup\<close> is called with zero on a new context; a
  second call for the name, for a sum starting at 7, returns the minimum at zero.
\<close>

theorem NewBuildup_defaults_GetOrCreateBuildup_keeps_witness:
  "map_sum id initial (NewBuildup min_config) = Inr PosInf \<and>
   f64_eq (bcfg_Initial min_config) (Finite 0) \<and>
   buildups (NewEvalContext ''eval-1'') ''low'' = None \<and>
   value (fst (EvalContext_GetOrCreateBuildup (NewEvalContext ''eval-1'') ''low'' BuildupMin (Finite 0)))
     = Finite 0 \<and>
   buildups (snd (EvalContext_GetOrCreateBuildup (NewEvalContext ''eval-1'') ''low'' BuildupMin (Finite 0))) ''low''
     = Some \<lparr>Name = ''low'', Operation = BuildupMin, value = Finite 0, count = 0\<rparr> \<and>
   EvalContext_GetOrCreateBuildup
     (snd (EvalContext_GetOrCreateBuildup (NewEvalContext ''eval-1'') ''low'' BuildupMin (Finite 0)))
     ''low'' BuildupSum (Finite 7)
     = (\<lparr>Name = ''low'', Operation = BuildupMin, value = Finite 0, count = 0\<rparr>,
        snd (EvalContext_GetOrCreateBuildup (NewEvalContext ''eval-1'') ''low'' BuildupMin (Finite 0)))"
  using NewBuildup_defaults_GetOrCreateBuildup_keeps
          [of min_config "projr (NewBuildup min_config)" "NewEvalContext ''eval-1''" "''low''"
              BuildupMin "Finite 0"
              "\<lparr>Name = ''low'', Operation = BuildupMin, value = Finite 0, count = 0\<rparr>"
              BuildupSum "Finite 7"]
  by (simp add: min_config_def NewBuildup_def NewEvalContext_def Let_def
        EvalContext_GetOrCreateBuildup_def)

section \<open>The text of a rule error\<close>








section \<open>Validation of an assignment\<close>

lemma NewAssignment_succeeds_iff:
  "\<not> isl (NewAssignment cfg) \<longleftrightarrow>
     acfg_ID cfg \<noteq> [] \<and> acfg_Target cfg \<noteq> [] \<and>
     (acfg_Value cfg \<noteq> ANil \<or> acfg_ValueFunc cfg \<noteq> None)"
  by (auto simp: NewAssignment_def)

text \<open>
  C8 at a configuration with an id, a target, the static value 1 and a value
  function: \<^verbatim>\<open>NewAssignment\<close> returns a rule that holds both, and no error.
\<close>

theorem NewAssignment_accepts_value_and_function:
  "acfg_Value both_config \<noteq> ANil \<and> acfg_ValueFunc both_config \<noteq> None \<and>
   NewAssignment both_config =
     Inr \<lparr>base_id = ''id'', base_name = [], base_description = [], base_deps = [],
          assignment_target = ''x'', assignment_value = AInt 1,
          assignment_valueFunc = Some one_func\<rparr>"
  by (simp add: both_config_def NewAssignment_def)

section \<open>Boolean evaluation of an expression\<close>

text \<open>
  C10: when the expression evaluates to a value that is not a bool, \<^verbatim>\<open>EvalBool\<close>
  returns false and no error; when it evaluates to a bool, that bool and no error.
  \<^verbatim>\<open>EvalBool\<close> returns an error exactly when the evaluation of the expression
  fails, and then it is the error of the evaluation.
\<close>

theorem EvalBool_false_on_non_bool:
  "(Expression_Eval rnd e getter = Inr v \<and> (\<forall>b. v \<noteq> ABool b) \<longrightarrow>
      Expression_EvalBool rnd e getter = (False, None)) \<and>
   (Expression_Eval rnd e getter = Inr (ABool b) \<longrightarrow>
      Expression_EvalBool rnd e getter = (b, None)) \<and>
   (snd (Expression_EvalBool rnd e getter) \<noteq> None \<longleftrightarrow> isl (Expression_Eval rnd e getter)) \<and>
   (Expression_Eval rnd e getter = Inl err \<longrightarrow>
      Expression_EvalBool rnd e getter = (False, Some err))"
  by (cases "Expression_Eval rnd e getter")
     (auto simp: Expression_EvalBool_def split: any.splits)

text \<open>
  The expression \<^verbatim>\<open>"a" + "b"\<close> evaluates to the string \<^verbatim>\<open>ab\<close>, and \<^verbatim>\<open>EvalBool\<close>
  returns false and no error; the expression \<^verbatim>\<open>x\<close> with no value for \<^verbatim>\<open>x\<close> fails,
  and \<^verbatim>\<open>EvalBool\<close> returns its error.
\<close>

theorem EvalBool_false_on_non_bool_witness:
  "Expression_Eval Finite concat_expr no_values = Inr (AString ''ab'') \<and>
   (\<forall>b. AString ''ab'' \<noteq> ABool b) \<and>
   Expression_EvalBool Finite concat_expr no_values = (False, None) \<and>
   Expression_Eval Finite ident_expr no_values = Inl (Message ''undefined variable: x'') \<and>
   Expression_EvalBool Finite ident_expr no_values
     = (False, Some (Message ''undefined variable: x''))"
  using EvalBool_false_on_non_bool
      [of Finite concat_expr no_values "AString ''ab''" True "Message []"]
    EvalBool_false_on_non_bool
      [of Finite ident_expr no_values "AString ''ab''" True "Message ''undefined variable: x''"]
  by (simp add: concat_expr_def ident_expr_def no_values_def no_funcs_def Expression_Eval_def
        Evaluator_Eval_def evalBinary_def)

section \<open>The engine\<close>

lemma fail_fast_engine_simps:
  "rules fail_fast_engine = [FormulaRule_Rule Finite (failing_formula ''fail'' ''x''),
             AssignmentRule_Rule (assign_42 ''y'')]"
  "config fail_fast_engine = DefaultConfig" "\<not> engine_closed fail_fast_engine"
  "engine_lookups fail_fast_engine = []"
  by (simp_all add: fail_fast_engine_def New_def Engine_AddRule_def DefaultConfig_def
        FormulaRule_Rule_def AssignmentRule_Rule_def failing_formula_def assign_42_def)

lemma collect_all_engine_simps:
  "rules collect_all_engine = [FormulaRule_Rule Finite (failing_formula ''fail1'' ''x''),
             FormulaRule_Rule Finite (failing_formula ''fail2'' ''y''),
             AssignmentRule_Rule (assign_42 ''z'')]"
  "config collect_all_engine = DefaultConfig\<lparr>Mode := ModeCollectAll\<rparr>"
  "\<not> engine_closed collect_all_engine"
  "engine_lookups collect_all_engine = []"
  by (simp_all add: collect_all_engine_def New_def Engine_AddRule_def DefaultConfig_def
        FormulaRule_Rule_def AssignmentRule_Rule_def failing_formula_def assign_42_def)





lemma loop_prefix:
  "evaluate_loop cfg cancelled k pre c errs = Completed c' errs' \<Longrightarrow>
   \<not> (ShortCircuit cfg \<and> EvalContext_IsHalted c') \<Longrightarrow>
   evaluate_loop cfg cancelled k (pre @ rest) c errs
     = evaluate_loop cfg cancelled (k + length pre) rest c' errs'"
proof (induction pre arbitrary: k c errs)
  case Nil
  then show ?case by simp
next
  case (Cons r pre)
  from Cons.prems(1) obtain nc where nc: "cancelled k = None"
    by (cases "cancelled k") simp_all
  have nh: "\<not> (ShortCircuit cfg \<and> EvalContext_IsHalted c)"
  proof
    assume h: "ShortCircuit cfg \<and> EvalContext_IsHalted c"
    with Cons.prems(1) nc have "c' = c" by simp
    with h Cons.prems(2) show False by simp
  qed
  obtain res c1 where ev: "evaluateRule r c = (res, c1)" by (cases "evaluateRule r c")
  show ?case
  proof (cases res)
    case None
    with Cons.prems(1) nc nh ev
    have "evaluate_loop cfg cancelled (Suc k) pre (incRulesEvaluated c1) errs = Completed c' errs'"
      by simp
    from Cons.IH [OF this Cons.prems(2)] nc nh ev None show ?thesis by auto
  next
    case (Some err)
    show ?thesis
    proof (cases "Mode cfg")
      case ModeFailFast
      with Cons.prems(1) nc nh ev Some show ?thesis by (simp add: Let_def)
    next
      case ModeCollectAll
      with Cons.prems(1) nc nh ev Some
      have "evaluate_loop cfg cancelled (Suc k) pre (incErrors c1) (errs @ [recorded_error r err])
              = Completed c' errs'"
        by (simp add: Let_def)
      from Cons.IH [OF this Cons.prems(2)] nc nh ev Some ModeCollectAll show ?thesis
        by (auto simp: Let_def)
    next
      case ModeContinueOnError
      with Cons.prems(1) nc nh ev Some
      have "evaluate_loop cfg cancelled (Suc k) pre (incErrors c1) (errs @ [recorded_error r err])
              = Completed c' errs'"
        by (simp add: Let_def)
      from Cons.IH [OF this Cons.prems(2)] nc nh ev Some ModeContinueOnError show ?thesis
        by (auto simp: Let_def)
    qed
  qed
qed

lemma loop_fail_fast_no_errors:
  "evaluate_loop cfg cancelled k rs c errs = Completed c' errs' \<Longrightarrow>
   Mode cfg = ModeFailFast \<Longrightarrow> errs' = errs"
proof (induction rs arbitrary: k c errs)
  case Nil
  then show ?case by simp
next
  case (Cons r rs)
  from Cons.prems(1) have nc: "cancelled k = None"
    by (cases "cancelled k") simp_all
  show ?case
  proof (cases "ShortCircuit cfg \<and> EvalContext_IsHalted c")
    case True
    with Cons.prems(1) nc show ?thesis by simp
  next
    case False
    obtain res c1 where ev: "evaluateRule r c = (res, c1)" by (cases "evaluateRule r c")
    show ?thesis
    proof (cases res)
      case None
      with Cons.prems nc False ev show ?thesis by (auto dest: Cons.IH)
    next
      case (Some err)
      with Cons.prems nc False ev show ?thesis by (simp add: Let_def)
    qed
  qed
qed

lemma loop_fail_fast_count:
  "evaluate_loop cfg cancelled k rs c errs = Completed c' errs' \<Longrightarrow>
   Mode cfg = ModeFailFast \<Longrightarrow>
   \<not> (ShortCircuit cfg \<and> EvalContext_IsHalted c') \<Longrightarrow>
   \<forall>q\<in>set rs. \<forall>x. rulesEvaluated (snd (rule_Evaluate q x)) = rulesEvaluated x \<Longrightarrow>
   rulesEvaluated c' = rulesEvaluated c + int (length rs)"
proof (induction rs arbitrary: k c errs)
  case Nil
  then show ?case by simp
next
  case (Cons r rs)
  from Cons.prems(1) have nc: "cancelled k = None"
    by (cases "cancelled k") simp_all
  have nh: "\<not> (ShortCircuit cfg \<and> EvalContext_IsHalted c)"
  proof
    assume h: "ShortCircuit cfg \<and> EvalContext_IsHalted c"
    with Cons.prems(1) nc have "c' = c" by simp
    with h Cons.prems(3) show False by simp
  qed
  obtain res c1 where ev: "evaluateRule r c = (res, c1)" by (cases "evaluateRule r c")
  have keep: "rulesEvaluated c1 = rulesEvaluated c"
    using Cons.prems(4) ev by (auto simp: evaluateRule_def dest!: bspec [where x = r] spec [where x = c])
  show ?case
  proof (cases res)
    case None
    with Cons.prems(1) nc nh ev
    have "evaluate_loop cfg cancelled (Suc k) rs (incRulesEvaluated c1) errs = Completed c' errs'"
      by simp
    from Cons.IH [OF this Cons.prems(2,3)] Cons.prems(4) keep show ?thesis
      by (simp add: incRulesEvaluated_def)
  next
    case (Some err)
    with Cons.prems nc nh ev show ?thesis by (simp add: Let_def)
  qed
qed

lemma rulesEvaluated_register:
  "rulesEvaluated (foldl EvalContext_RegisterLookup c ls) = rulesEvaluated c"
  by (induction ls arbitrary: c) (simp_all add: EvalContext_RegisterLookup_def)


lemma values_register:
  "values (foldl EvalContext_RegisterLookup c ls) = values c"
  by (induction ls arbitrary: c) (simp_all add: EvalContext_RegisterLookup_def)

text \<open>
  C3: under fail-fast, let the rules before position \<open>i\<close> have run and the rule
  \<open>r\<close> at position \<open>i\<close> be reached (the context is not done, and not halted under
  short-circuit) and fail with \<open>err\<close>, leaving the context \<open>cf\<close>. Then
  \<^verbatim>\<open>Evaluate\<close> returns \<open>err\<close> together with a result, whose context is \<open>cf\<close> with
  one more error counted and whose only recorded error is that of \<open>r\<close>. Whatever
  rules follow position \<open>i\<close>, the outcome is the same: none of them is executed.
  A key with no value in \<open>cf\<close> has none in the context of the result, so the
  later rules add no target. The failing rule is not counted: \<^verbatim>\<open>RulesEvaluated\<close>
  is the counter as \<open>r\<close> left it, which is the initial counter plus \<open>i\<close> when the
  rules themselves leave the counter alone.
\<close>

theorem FailFast_stops_at_failing_rule:
  assumes mode: "Mode (config e) = ModeFailFast"
    and opened: "\<not> engine_closed e"
    and rs: "rules e = pre @ r # post"
    and before: "evaluate_loop (config e) cancelled 0 pre
                   (foldl EvalContext_RegisterLookup c0 (engine_lookups e)) [] = Completed ci errs"
    and not_halted: "\<not> (ShortCircuit (config e) \<and> EvalContext_IsHalted ci)"
    and not_cancelled: "cancelled (length pre) = None"
    and fails: "rule_Evaluate r ci = (Some err, cf)"
  shows "\<exists>res. Engine_Evaluate cancelled e (Some c0) = (Some res, Some err) \<and>
           Context res = incErrors cf \<and>
           Errors res = [recorded_error r err] \<and>
           RulesFailed res = 1 \<and>
           (\<forall>post'. Engine_Evaluate cancelled (e\<lparr>rules := pre @ r # post'\<rparr>) (Some c0)
                      = (Some res, Some err)) \<and>
           (\<forall>key. values cf key = None \<longrightarrow> values (Context res) key = None) \<and>
           RulesEvaluated res = rulesEvaluated cf \<and>
           ((\<forall>q\<in>set (pre @ [r]). \<forall>x. rulesEvaluated (snd (rule_Evaluate q x)) = rulesEvaluated x)
              \<longrightarrow> RulesEvaluated res = rulesEvaluated c0 + int (length pre))"
proof -
  let ?c1 = "foldl EvalContext_RegisterLookup c0 (engine_lookups e)"
  let ?res = "newResult (incErrors cf) [recorded_error r err]"
  have errs: "errs = []"
    using loop_fail_fast_no_errors [OF before mode] by simp
  have step: "evaluate_loop (config e) cancelled (length pre) (r # rest) ci []
                = FailedFast (incErrors cf) [recorded_error r err] err" for rest
    using not_halted not_cancelled fails mode by (auto simp: evaluateRule_def Let_def)
  have loop: "evaluate_loop (config e) cancelled 0 (pre @ r # rest) ?c1 []
                = FailedFast (incErrors cf) [recorded_error r err] err" for rest
    using loop_prefix [OF before not_halted, of "r # rest"] step [of rest] errs by simp
  have run: "Engine_Evaluate cancelled (e\<lparr>rules := pre @ r # rest\<rparr>) (Some c0)
               = (Some ?res, Some err)" for rest
    using opened loop [of rest] by (simp add: Engine_Evaluate_def)
  have "e\<lparr>rules := pre @ r # post\<rparr> = e" using rs by simp
  with run [of post] have here: "Engine_Evaluate cancelled e (Some c0) = (Some ?res, Some err)"
    by simp
  have counted: "RulesEvaluated ?res = rulesEvaluated c0 + int (length pre)"
    if keep: "\<forall>q\<in>set (pre @ [r]). \<forall>x. rulesEvaluated (snd (rule_Evaluate q x)) = rulesEvaluated x"
  proof -
    from keep have "\<forall>q\<in>set pre. \<forall>x. rulesEvaluated (snd (rule_Evaluate q x)) = rulesEvaluated x"
      by simp
    from loop_fail_fast_count [OF before mode not_halted this]
    have "rulesEvaluated ci = rulesEvaluated c0 + int (length pre)"
      by (simp add: rulesEvaluated_register)
    moreover from keep fails have "rulesEvaluated cf = rulesEvaluated ci"
      by (auto dest!: spec [where x = ci])
    ultimately show ?thesis
      by (simp add: newResult_def EvalContext_RulesEvaluated_def incErrors_def)
  qed
  show ?thesis
  proof (intro exI [of _ ?res] conjI allI impI)
    show "Engine_Evaluate cancelled e (Some c0) = (Some ?res, Some err)" by (rule here)
    show "Context ?res = incErrors cf" by (simp add: newResult_def)
    show "Errors ?res = [recorded_error r err]" by (simp add: newResult_def)
    show "RulesFailed ?res = 1" by (simp add: newResult_def)
    show "Engine_Evaluate cancelled (e\<lparr>rules := pre @ r # post'\<rparr>) (Some c0)
            = (Some ?res, Some err)" for post'
      by (rule run)
    show "values (Context ?res) key = None" if "values cf key = None" for key
      using that by (simp add: newResult_def incErrors_def)
    show "RulesEvaluated ?res = rulesEvaluated cf"
      by (simp add: newResult_def EvalContext_RulesEvaluated_def incErrors_def)
    show "RulesEvaluated ?res = rulesEvaluated c0 + int (length pre)"
      if "\<forall>q\<in>set (pre @ [r]). \<forall>x. rulesEvaluated (snd (rule_Evaluate q x)) = rulesEvaluated x"
      using that by (rule counted)
  qed
qed


text \<open>
  Scenario 4: a formula that returns an error, then the assignment \<^verbatim>\<open>y = 42\<close>,
  on a new context: \<^verbatim>\<open>Evaluate\<close> returns the error, \<^verbatim>\<open>y\<close> has no value, and
  \<^verbatim>\<open>RulesEvaluated\<close> is 0.
\<close>

theorem FailFast_stops_at_failing_rule_witness:
  "Mode (config fail_fast_engine) = ModeFailFast \<and>
   \<not> engine_closed fail_fast_engine \<and>
   rules fail_fast_engine = [] @ FormulaRule_Rule Finite (failing_formula ''fail'' ''x'')
                                 # [AssignmentRule_Rule (assign_42 ''y'')] \<and>
   rule_Evaluate (FormulaRule_Rule Finite (failing_formula ''fail'' ''x'')) (NewEvalContext ''eval-1'')
     = (Some (RuleErr (RuleError ''fail'' ''formula'' ''evaluate'' (Some (Message ''boom'')))),
        NewEvalContext ''eval-1'') \<and>
   (\<exists>res. Engine_Evaluate never_done fail_fast_engine (Some (NewEvalContext ''eval-1''))
            = (Some res, Some (RuleErr (RuleError ''fail'' ''formula'' ''evaluate''
                                          (Some (Message ''boom''))))) \<and>
          values (Context res) ''y'' = None \<and>
          RulesEvaluated res = 0 \<and>
          RulesFailed res = 1)"
proof -
  let ?r = "FormulaRule_Rule Finite (failing_formula ''fail'' ''x'')"
  let ?c = "NewEvalContext ''eval-1''"
  let ?err = "RuleErr (RuleError ''fail'' ''formula'' ''evaluate'' (Some (Message ''boom'')))"
  have h1: "Mode (config fail_fast_engine) = ModeFailFast"
    by (simp add: fail_fast_engine_simps DefaultConfig_def)
  have h2: "\<not> engine_closed fail_fast_engine"
    by (simp add: fail_fast_engine_simps)
  have h3: "rules fail_fast_engine = [] @ ?r # [AssignmentRule_Rule (assign_42 ''y'')]"
    by (simp add: fail_fast_engine_simps)
  have h4: "evaluate_loop (config fail_fast_engine) never_done 0 []
              (foldl EvalContext_RegisterLookup ?c (engine_lookups fail_fast_engine)) []
              = Completed ?c []"
    by (simp add: fail_fast_engine_simps)
  have h5: "\<not> (ShortCircuit (config fail_fast_engine) \<and> EvalContext_IsHalted ?c)"
    by (simp add: EvalContext_IsHalted_def NewEvalContext_def)
  have h6: "never_done (length ([] :: Rule list)) = None"
    by (simp add: never_done_def)
  have h7: "rule_Evaluate ?r ?c = (Some ?err, ?c)"
    by (simp add: FormulaRule_Rule_def FormulaRule_Evaluate_def failing_formula_def
          failing_func_def NewRuleError_def)
  from FailFast_stops_at_failing_rule [OF h1 h2 h3 h4 h5 h6 h7]
  obtain res where res:
    "Engine_Evaluate never_done fail_fast_engine (Some ?c) = (Some res, Some ?err)"
    "Context res = incErrors ?c"
    "Errors res = [recorded_error ?r ?err]"
    "RulesFailed res = 1"
    "\<forall>key. values ?c key = None \<longrightarrow> values (Context res) key = None"
    "RulesEvaluated res = rulesEvaluated ?c"
    by blast
  from res(5) have "values (Context res) ''y'' = None"
    by (simp add: NewEvalContext_def)
  moreover from res(6) have "RulesEvaluated res = 0"
    by (simp add: NewEvalContext_def)
  ultimately show ?thesis using h1 h2 h3 h7 res(1) res(4) by blast
qed

text \<open>
  C4: under collect-all, when the rule at the head of the rules still to run is
  reached and fails, the loop goes on with the next rule, with the error of the
  rule appended to the list of errors, one more error counted and the counter of
  evaluated rules as the rule left it. With two rules that fail followed by an
  assignment of a static value, \<^verbatim>\<open>Evaluate\<close> returns no error and a result with
  the two errors, the target of the assignment is set, and \<^verbatim>\<open>RulesEvaluated\<close> is
  one more than the second failing rule left it: 1, when the context is new and
  the failing rules leave the counter alone.
\<close>

theorem CollectAll_appends_and_continues:
  "(Mode cfg = ModeCollectAll \<and> cancelled k = None \<and>
    \<not> (ShortCircuit cfg \<and> EvalContext_IsHalted c) \<and> rule_Evaluate r c = (Some err, c') \<longrightarrow>
      evaluate_loop cfg cancelled k (r # rest) c errs
        = evaluate_loop cfg cancelled (Suc k) rest (incErrors c') (errs @ [recorded_error r err]) \<and>
      rulesEvaluated (incErrors c') = rulesEvaluated c') \<and>
   (Mode (config e) = ModeCollectAll \<and> \<not> engine_closed e \<and>
    rules e = [f1, f2, AssignmentRule_Rule a] \<and> assignment_valueFunc a = None \<and>
    (\<forall>j. cancelled j = None) \<and>
    c1 = foldl EvalContext_RegisterLookup c0 (engine_lookups e) \<and>
    rule_Evaluate f1 c1 = (Some e1, d1) \<and>
    rule_Evaluate f2 (incErrors d1) = (Some e2, d2) \<and>
    \<not> (ShortCircuit (config e) \<and>
         (EvalContext_IsHalted c1 \<or> EvalContext_IsHalted d1 \<or> EvalContext_IsHalted d2)) \<longrightarrow>
      (\<exists>res. Engine_Evaluate cancelled e (Some c0) = (Some res, None) \<and>
             Errors res = [recorded_error f1 e1, recorded_error f2 e2] \<and>
             RulesFailed res = 2 \<and>
             values (Context res) (assignment_target a) = Some (assignment_value a) \<and>
             RulesEvaluated res = rulesEvaluated d2 + 1 \<and>
             (rulesEvaluated c0 = 0 \<and> rulesEvaluated d1 = rulesEvaluated c1 \<and>
              rulesEvaluated d2 = rulesEvaluated (incErrors d1) \<longrightarrow> RulesEvaluated res = 1)))"
proof (intro conjI impI)
  assume a: "Mode cfg = ModeCollectAll \<and> cancelled k = None \<and>
    \<not> (ShortCircuit cfg \<and> EvalContext_IsHalted c) \<and> rule_Evaluate r c = (Some err, c')"
  then show "evaluate_loop cfg cancelled k (r # rest) c errs
        = evaluate_loop cfg cancelled (Suc k) rest (incErrors c') (errs @ [recorded_error r err])"
    by (auto simp: evaluateRule_def Let_def)
  show "rulesEvaluated (incErrors c') = rulesEvaluated c'"
    by (simp add: incErrors_def)
next
  assume a: "Mode (config e) = ModeCollectAll \<and> \<not> engine_closed e \<and>
    rules e = [f1, f2, AssignmentRule_Rule a] \<and> assignment_valueFunc a = None \<and>
    (\<forall>j. cancelled j = None) \<and>
    c1 = foldl EvalContext_RegisterLookup c0 (engine_lookups e) \<and>
    rule_Evaluate f1 c1 = (Some e1, d1) \<and>
    rule_Evaluate f2 (incErrors d1) = (Some e2, d2) \<and>
    \<not> (ShortCircuit (config e) \<and>
         (EvalContext_IsHalted c1 \<or> EvalContext_IsHalted d1 \<or> EvalContext_IsHalted d2))"
  let ?final = "incRulesEvaluated
                  (EvalContext_Set (incErrors d2) (assignment_target a) (assignment_value a))"
  let ?errs = "[recorded_error f1 e1, recorded_error f2 e2]"
  from a have halted: "EvalContext_IsHalted (incErrors d1) = EvalContext_IsHalted d1"
    "EvalContext_IsHalted (incErrors d2) = EvalContext_IsHalted d2"
    by (simp_all add: EvalContext_IsHalted_def incErrors_def)
  from a have assign: "rule_Evaluate (AssignmentRule_Rule a) (incErrors d2)
      = (None, EvalContext_Set (incErrors d2) (assignment_target a) (assignment_value a))"
    by (simp add: AssignmentRule_Rule_def AssignmentRule_Evaluate_def)
  from a halted assign
  have loop: "evaluate_loop (config e) cancelled 0 (rules e) c1 [] = Completed ?final ?errs"
    by (auto simp: evaluateRule_def Let_def)
  with a have run: "Engine_Evaluate cancelled e (Some c0) = (Some (newResult ?final ?errs), None)"
    by (simp add: Engine_Evaluate_def Let_def)
  show "\<exists>res. Engine_Evaluate cancelled e (Some c0) = (Some res, None) \<and>
             Errors res = [recorded_error f1 e1, recorded_error f2 e2] \<and>
             RulesFailed res = 2 \<and>
             values (Context res) (assignment_target a) = Some (assignment_value a) \<and>
             RulesEvaluated res = rulesEvaluated d2 + 1 \<and>
             (rulesEvaluated c0 = 0 \<and> rulesEvaluated d1 = rulesEvaluated c1 \<and>
              rulesEvaluated d2 = rulesEvaluated (incErrors d1) \<longrightarrow> RulesEvaluated res = 1)"
  proof (intro exI [of _ "newResult ?final ?errs"] conjI impI)
    show "Engine_Evaluate cancelled e (Some c0) = (Some (newResult ?final ?errs), None)" by (rule run)
    show "Errors (newResult ?final ?errs) = ?errs" by (simp add: newResult_def)
    show "RulesFailed (newResult ?final ?errs) = 2" by (simp add: newResult_def)
    show "values (Context (newResult ?final ?errs)) (assignment_target a) = Some (assignment_value a)"
      by (simp add: newResult_def incRulesEvaluated_def EvalContext_Set_def)
    show "RulesEvaluated (newResult ?final ?errs) = rulesEvaluated d2 + 1"
      by (simp add: newResult_def incRulesEvaluated_def EvalContext_Set_def incErrors_def
            EvalContext_RulesEvaluated_def)
    show "RulesEvaluated (newResult ?final ?errs) = 1"
      if "rulesEvaluated c0 = 0 \<and> rulesEvaluated d1 = rulesEvaluated c1 \<and>
              rulesEvaluated d2 = rulesEvaluated (incErrors d1)"
      using that a
      by (simp add: newResult_def incRulesEvaluated_def EvalContext_Set_def incErrors_def
            EvalContext_RulesEvaluated_def rulesEvaluated_register)
  qed
qed


text \<open>
  Scenario 5: two formulas that return an error, then the assignment \<^verbatim>\<open>z = 42\<close>:
  two errors in the result, \<^verbatim>\<open>z\<close> is 42, and \<^verbatim>\<open>RulesEvaluated\<close> is 1.
\<close>

theorem CollectAll_appends_and_continues_witness:
  "Mode (config collect_all_engine) = ModeCollectAll \<and>
   \<not> engine_closed collect_all_engine \<and>
   rules collect_all_engine = [FormulaRule_Rule Finite (failing_formula ''fail1'' ''x''),
                               FormulaRule_Rule Finite (failing_formula ''fail2'' ''y''),
                               AssignmentRule_Rule (assign_42 ''z'')] \<and>
   rule_Evaluate (FormulaRule_Rule Finite (failing_formula ''fail1'' ''x'')) (NewEvalContext ''eval-1'')
     = (Some (RuleErr (RuleError ''fail1'' ''formula'' ''evaluate'' (Some (Message ''boom'')))),
        NewEvalContext ''eval-1'') \<and>
   rule_Evaluate (FormulaRule_Rule Finite (failing_formula ''fail2'' ''y''))
       (incErrors (NewEvalContext ''eval-1''))
     = (Some (RuleErr (RuleError ''fail2'' ''formula'' ''evaluate'' (Some (Message ''boom'')))),
        incErrors (NewEvalContext ''eval-1'')) \<and>
   (\<exists>res. Engine_Evaluate never_done collect_all_engine (Some (NewEvalContext ''eval-1''))
            = (Some res, None) \<and>
          length (Errors res) = 2 \<and>
          values (Context res) ''z'' = Some (AInt 42) \<and>
          RulesEvaluated res = 1)"
proof -
  let ?f1 = "FormulaRule_Rule Finite (failing_formula ''fail1'' ''x'')"
  let ?f2 = "FormulaRule_Rule Finite (failing_formula ''fail2'' ''y'')"
  let ?c = "NewEvalContext ''eval-1''"
  let ?e1 = "RuleErr (RuleError ''fail1'' ''formula'' ''evaluate'' (Some (Message ''boom'')))"
  let ?e2 = "RuleErr (RuleError ''fail2'' ''formula'' ''evaluate'' (Some (Message ''boom'')))"
  have f1: "rule_Evaluate ?f1 ?c = (Some ?e1, ?c)"
    by (simp add: FormulaRule_Rule_def FormulaRule_Evaluate_def failing_formula_def
          failing_func_def NewRuleError_def)
  have f2: "rule_Evaluate ?f2 (incErrors ?c) = (Some ?e2, incErrors ?c)"
    by (simp add: FormulaRule_Rule_def FormulaRule_Evaluate_def failing_formula_def
          failing_func_def NewRuleError_def)
  have hyp: "Mode (config collect_all_engine) = ModeCollectAll \<and> \<not> engine_closed collect_all_engine \<and>
    rules collect_all_engine = [?f1, ?f2, AssignmentRule_Rule (assign_42 ''z'')] \<and>
    assignment_valueFunc (assign_42 ''z'') = None \<and>
    (\<forall>j. never_done j = None) \<and>
    ?c = foldl EvalContext_RegisterLookup ?c (engine_lookups collect_all_engine) \<and>
    rule_Evaluate ?f1 ?c = (Some ?e1, ?c) \<and>
    rule_Evaluate ?f2 (incErrors ?c) = (Some ?e2, incErrors ?c) \<and>
    \<not> (ShortCircuit (config collect_all_engine) \<and>
         (EvalContext_IsHalted ?c \<or> EvalContext_IsHalted ?c \<or>
          EvalContext_IsHalted (incErrors ?c)))"
    using f1 f2
    by (simp add: collect_all_engine_simps assign_42_def never_done_def
          EvalContext_IsHalted_def NewEvalContext_def incErrors_def)
  from CollectAll_appends_and_continues
         [where cfg = "config collect_all_engine" and cancelled = never_done and k = 0
            and c = ?c and r = ?f1 and err = ?e1 and c' = ?c
            and rest = "[?f2, AssignmentRule_Rule (assign_42 ''z'')]" and errs = "[]"
            and e = collect_all_engine and ?f1.0 = ?f1 and ?f2.0 = ?f2 and a = "assign_42 ''z''"
            and ?c1.0 = ?c and ?c0.0 = ?c and ?e1.0 = ?e1 and ?d1.0 = ?c and ?e2.0 = ?e2
            and ?d2.0 = "incErrors ?c"] hyp
  obtain res where res:
    "Engine_Evaluate never_done collect_all_engine (Some ?c) = (Some res, None)"
    "Errors res = [recorded_error ?f1 ?e1, recorded_error ?f2 ?e2]"
    "values (Context res) (assignment_target (assign_42 ''z'')) = Some (assignment_value (assign_42 ''z''))"
    "RulesEvaluated res = rulesEvaluated (incErrors ?c) + 1"
    by blast
  from res(2) have "length (Errors res) = 2" by simp
  moreover from res(3) have "values (Context res) ''z'' = Some (AInt 42)"
    by (simp add: assign_42_def)
  moreover from res(4) have "RulesEvaluated res = 1"
    by (simp add: NewEvalContext_def incErrors_def)
  ultimately show ?thesis using hyp f1 f2 res(1) by blast
qed

section \<open>Allocation\<close>





lemma exact_remainder_conserves:
  assumes "rnd s = Finite s"
  shows "fadd rnd (Finite t) (Finite (s - t)) = Finite s"
  using assms by simp






end
